theory Spec2Isabelle
  imports Main "HOL-Library.AList"
begin

section \<open>Python values, errors and helpers\<close>

text \<open>
  The service (service.py) is dynamically typed. Values that come from parsed JSON or YAML,
  from the job configuration or from the workflow engine are modelled by \<open>pyval\<close>; a Python
  dict inside such a value is an association list (insertion ordered). Floating point numbers
  are not modelled.
\<close>

datatype pyval =
    PNone
  | PBool bool
  | PInt int
  | PStr string
  | PList "pyval list"
  | PDict "(string \<times> pyval) list"

text \<open>
  Every Python exception that the modelled code can meet is a value. All of them are
  subclasses of \<open>Exception\<close>, so an \<open>except Exception\<close> clause catches each of them.
  \<open>YAMLError\<close> stands for \<open>yaml.YAMLError\<close> and its subclasses (\<open>ScannerError\<close> is one);
  \<open>OtherError\<close> is any further exception raised by an external library.
\<close>

datatype error =
    KeyError string
  | TypeError
  | AttributeError
  | ValueError
  | UnboundLocalError
  | NameError
  | StopIteration
  | FileNotFoundError
  | YAMLError
  | OtherError string

text \<open>Truthiness of a value, as \<open>if v:\<close> and \<open>a and b\<close> test it.\<close>

fun truthy :: "pyval \<Rightarrow> bool" where
  "truthy PNone = False"
| "truthy (PBool b) = b"
| "truthy (PInt i) = (i \<noteq> 0)"
| "truthy (PStr s) = (s \<noteq> [])"
| "truthy (PList xs) = (xs \<noteq> [])"
| "truthy (PDict kvs) = (kvs \<noteq> [])"

text \<open>Decimal rendering of a natural number and of an integer (\<open>str(n)\<close>).\<close>

definition digit_char :: "nat \<Rightarrow> char" where
  "digit_char d = char_of (48 + d)"

function str_nat :: "nat \<Rightarrow> string" where
  "str_nat n = (if n < 10 then [digit_char n] else str_nat (n div 10) @ [digit_char (n mod 10)])"
  by pat_completeness auto
termination
  by (relation "measure id") auto

declare str_nat.simps [simp del]

definition str_int :: "int \<Rightarrow> string" where
  "str_int i = (if i < 0 then CHR ''-'' # str_nat (nat (- i)) else str_nat (nat i))"

text \<open>
  \<open>str(v)\<close> and the \<open>{v}\<close> of an f-string. The rendering of a list or a dict is the
  interpreter's \<open>repr\<close>, taken as the parameter \<open>repr\<close>.
\<close>

fun py_str :: "(pyval \<Rightarrow> string) \<Rightarrow> pyval \<Rightarrow> string" where
  "py_str repr PNone = ''None''"
| "py_str repr (PBool b) = (if b then ''True'' else ''False'')"
| "py_str repr (PInt i) = str_int i"
| "py_str repr (PStr s) = s"
| "py_str repr (PList xs) = repr (PList xs)"
| "py_str repr (PDict kvs) = repr (PDict kvs)"

text \<open>\<open>v[k]\<close> with a string key, and \<open>v.get(k)\<close>.\<close>

fun py_getitem :: "pyval \<Rightarrow> string \<Rightarrow> error + pyval" where
  "py_getitem (PDict kvs) k = (case map_of kvs k of None \<Rightarrow> Inl (KeyError k) | Some v \<Rightarrow> Inr v)"
| "py_getitem v k = Inl TypeError"

fun py_get :: "pyval \<Rightarrow> string \<Rightarrow> error + pyval" where
  "py_get (PDict kvs) k = (case map_of kvs k of None \<Rightarrow> Inr PNone | Some v \<Rightarrow> Inr v)"
| "py_get v k = Inl AttributeError"

section \<open>Job configuration and process environment\<close>

text \<open>
  \<open>conf\<close> is a dict of sections, each a dict from keys to values. The process environment
  \<open>os.environ\<close> maps variable names to strings.
\<close>

type_synonym sect = "string \<rightharpoonup> pyval"
type_synonym conf = "string \<rightharpoonup> sect"
type_synonym environ = "string \<rightharpoonup> string"

text \<open>\<open>os.environ.get(name, default)\<close>\<close>

definition environ_get :: "environ \<Rightarrow> string \<Rightarrow> string \<Rightarrow> pyval" where
  "environ_get env name dflt = (case env name of None \<Rightarrow> PStr dflt | Some v \<Rightarrow> PStr v)"

text \<open>\<open>conf.get(name, {})\<close>\<close>

definition conf_section :: "conf \<Rightarrow> string \<Rightarrow> sect" where
  "conf_section c name = (case c name of None \<Rightarrow> Map.empty | Some s \<Rightarrow> s)"

text \<open>\<open>sec.get(key, default)\<close>\<close>

definition section_get :: "sect \<Rightarrow> string \<Rightarrow> pyval \<Rightarrow> pyval" where
  "section_get s k dflt = (case s k of None \<Rightarrow> dflt | Some v \<Rightarrow> v)"

subsection \<open>init_config_defaults\<close>

text \<open>
  The static method \<open>init_config_defaults(conf)\<close>: creates \<open>additional_parameters\<close> when it is
  missing, then writes the four stage-in and the five stage-out entries, each from the
  environment variable of the same name or from its constant.
\<close>

definition init_config_defaults :: "environ \<Rightarrow> conf \<Rightarrow> conf" where
  "init_config_defaults env c =
    (let c1 = (if c ''additional_parameters'' = None
               then c(''additional_parameters'' \<mapsto> Map.empty) else c);
         ap = conf_section c1 ''additional_parameters'';
         ap = ap(''STAGEIN_AWS_SERVICEURL'' \<mapsto>
                  environ_get env ''STAGEIN_AWS_SERVICEURL'' ''http://s3-service.zoo.svc.cluster.local:9000'');
         ap = ap(''STAGEIN_AWS_ACCESS_KEY_ID'' \<mapsto>
                  environ_get env ''STAGEIN_AWS_ACCESS_KEY_ID'' ''minio-admin'');
         ap = ap(''STAGEIN_AWS_SECRET_ACCESS_KEY'' \<mapsto>
                  environ_get env ''STAGEIN_AWS_SECRET_ACCESS_KEY'' ''minio-secret-password'');
         ap = ap(''STAGEIN_AWS_REGION'' \<mapsto>
                  environ_get env ''STAGEIN_AWS_REGION'' ''RegionOne'');
         ap = ap(''STAGEOUT_AWS_SERVICEURL'' \<mapsto>
                  environ_get env ''STAGEOUT_AWS_SERVICEURL'' ''http://s3-service.zoo.svc.cluster.local:9000'');
         ap = ap(''STAGEOUT_AWS_ACCESS_KEY_ID'' \<mapsto>
                  environ_get env ''STAGEOUT_AWS_ACCESS_KEY_ID'' ''minio-admin'');
         ap = ap(''STAGEOUT_AWS_SECRET_ACCESS_KEY'' \<mapsto>
                  environ_get env ''STAGEOUT_AWS_SECRET_ACCESS_KEY'' ''minio-secret-password'');
         ap = ap(''STAGEOUT_AWS_REGION'' \<mapsto>
                  environ_get env ''STAGEOUT_AWS_REGION'' ''RegionOne'');
         ap = ap(''STAGEOUT_OUTPUT'' \<mapsto>
                  environ_get env ''STAGEOUT_OUTPUT'' ''eoepca'')
     in c1(''additional_parameters'' \<mapsto> ap))"

text \<open>The nine staging keys.\<close>

definition stagein_keys :: "string list" where
  "stagein_keys = [''STAGEIN_AWS_SERVICEURL'', ''STAGEIN_AWS_ACCESS_KEY_ID'',
     ''STAGEIN_AWS_SECRET_ACCESS_KEY'', ''STAGEIN_AWS_REGION'']"

definition stageout_keys :: "string list" where
  "stageout_keys = [''STAGEOUT_AWS_SERVICEURL'', ''STAGEOUT_AWS_ACCESS_KEY_ID'',
     ''STAGEOUT_AWS_SECRET_ACCESS_KEY'', ''STAGEOUT_AWS_REGION'', ''STAGEOUT_OUTPUT'']"

section \<open>String helpers\<close>

text \<open>\<open>s.replace(old, new)\<close>: every non-overlapping occurrence, from the left.\<close>

function replace_str :: "string \<Rightarrow> string \<Rightarrow> string \<Rightarrow> string" where
  "replace_str old new s =
     (if old = [] then new @ concat (map (\<lambda>c. c # new) s)
      else if s = [] then []
      else if take (length old) s = old then new @ replace_str old new (drop (length old) s)
      else hd s # replace_str old new (tl s))"
  by pat_completeness auto
termination
  by (relation "measure (\<lambda>(old, new, s). length s)") auto

declare replace_str.simps [simp del]

text \<open>\<open>sub in s\<close>, so that \<open>s.count(sub) == 0\<close> is its negation.\<close>

fun contains :: "string \<Rightarrow> string \<Rightarrow> bool" where
  "contains sub [] = (sub = [])"
| "contains sub (c # cs) = (take (length sub) (c # cs) = sub \<or> contains sub cs)"

text \<open>\<open>os.path.join(path, *bs)\<close> and \<open>os.path.basename(p)\<close> of posixpath.\<close>

fun path_join :: "string \<Rightarrow> string list \<Rightarrow> string" where
  "path_join path [] = path"
| "path_join path (b # bs) =
     path_join (if b \<noteq> [] \<and> hd b = CHR ''/'' then b
                else if path = [] \<or> last path = CHR ''/'' then path @ b
                else path @ ''/'' @ b) bs"

definition basename :: "string \<Rightarrow> string" where
  "basename p = rev (takeWhile (\<lambda>c. c \<noteq> CHR ''/'') (rev p))"

text \<open>\<open>s.lower()\<close> on ASCII letters.\<close>

definition lower_char :: "char \<Rightarrow> char" where
  "lower_char c = (let n = (of_char c :: nat) in if 65 \<le> n \<and> n \<le> 90 then char_of (n + 32) else c)"

definition py_lower :: "string \<Rightarrow> string" where
  "py_lower s = map lower_char s"

text \<open>
  \<open>int(v)\<close>: a string is stripped of surrounding white space, may carry one sign, and is
  made of decimal digits with single underscores between digits.
\<close>

definition is_space :: "char \<Rightarrow> bool" where
  "is_space c = ((of_char c :: nat) \<in> {9, 10, 11, 12, 13, 32})"

definition strip :: "string \<Rightarrow> string" where
  "strip s = rev (dropWhile is_space (rev (dropWhile is_space s)))"

definition digit_of :: "char \<Rightarrow> nat option" where
  "digit_of c = (let n = (of_char c :: nat) in if 48 \<le> n \<and> n \<le> 57 then Some (n - 48) else None)"

fun parse_digits :: "nat \<Rightarrow> bool \<Rightarrow> string \<Rightarrow> nat option" where
  "parse_digits acc after_digit [] = (if after_digit then Some acc else None)"
| "parse_digits acc after_digit (c # cs) =
     (if c = CHR ''_'' then (if after_digit \<and> cs \<noteq> [] then parse_digits acc False cs else None)
      else (case digit_of c of None \<Rightarrow> None
            | Some d \<Rightarrow> parse_digits (10 * acc + d) True cs))"

definition int_of_str :: "string \<Rightarrow> error + int" where
  "int_of_str s =
     (let t = strip s;
          neg = (t \<noteq> [] \<and> hd t = CHR ''-'');
          body = (if t \<noteq> [] \<and> (hd t = CHR ''-'' \<or> hd t = CHR ''+'') then tl t else t)
      in case parse_digits 0 False body of
           None \<Rightarrow> Inl ValueError
         | Some n \<Rightarrow> Inr (if neg then - int n else int n))"

fun py_int :: "pyval \<Rightarrow> error + int" where
  "py_int (PStr s) = int_of_str s"
| "py_int (PInt i) = Inr i"
| "py_int (PBool b) = Inr (if b then 1 else 0)"
| "py_int v = Inl TypeError"

section \<open>External collaborators\<close>

text \<open>
  An HTTP response of the \<open>requests\<close> library: the \<open>ok\<close> flag, the status code, the body text
  and the result of \<open>.json()\<close> (an exception when the body is not JSON).
\<close>

record response =
  resp_ok :: bool
  resp_status_code :: int
  resp_text :: string
  resp_json :: "error + pyval"

text \<open>
  What \<open>pystac.read_file\<close> returns. \<open>get_all_collections()\<close> and \<open>get_all_items()\<close> are
  generator functions of pystac. For the collections the model keeps what the first \<open>next\<close>
  meets: an exception (also when the object has no such method), or the collections
  yielded. For the items, \<open>Inl\<close> says that the call itself raises; otherwise the generator
  either raises before its first item or yields the items listed.
\<close>

record collection =
  to_dict :: "(string \<times> pyval) list"
  get_self_href :: pyval

record item =
  assets :: "(string \<times> (string \<times> pyval) list) list"
  collection_id :: pyval

record stac_doc =
  get_all_collections :: "error + collection list"
  get_all_items :: "error + (error + item list)"

text \<open>
  The world outside the process, as functions of the request: the workspace API, the JWT
  library (\<open>jwt.decode\<close> without signature check, giving the claims), the object store
  behind \<open>read_file\<close> (which reads with the credentials in the environment), the local
  file system and YAML parser, \<open>Item.to_dict\<close> of pystac and \<open>repr\<close>.
\<close>

record world =
  requests_get :: "string \<Rightarrow> (string \<times> string) list \<Rightarrow> error + response"
  requests_post :: "string \<Rightarrow> pyval \<Rightarrow> (string \<times> string) list \<Rightarrow> error + response"
  jwt_decode :: "pyval \<Rightarrow> error + (string \<times> pyval) list"
  read_file :: "environ \<Rightarrow> string \<Rightarrow> error + stac_doc"
  open_read :: "string \<Rightarrow> error + string"
  yaml_safe_load :: "string \<Rightarrow> error + pyval"
  item_to_dict :: "item \<Rightarrow> pyval"
  py_repr :: "pyval \<Rightarrow> string"

section \<open>The execution handler\<close>

text \<open>
  The state of an \<open>EoepcaCalrissianRunnerExecutionHandler\<close>. \<open>conf\<close> and \<open>outputs\<close> are the
  caller's own dicts (the constructor stores the references), so the one \<open>conf\<close> of this
  record is also the \<open>conf\<close> that the service function reads and writes. \<open>outputs\<close> keeps
  the order of its keys; each output is a dict.
\<close>

record handler =
  conf :: conf
  outputs :: "(string \<times> sect) list"
  http_proxy_env :: "string option"
  domain :: pyval
  workspace_url :: pyval
  workspace_prefix :: pyval
  use_workspace :: bool
  workspace_catalog_register :: bool
  username :: pyval
  ades_rx_token :: pyval

text \<open>
  \<open>__init__(conf, outputs)\<close>. The catalogue flag is only read when the workspace is in use
  (\<open>and\<close> does not evaluate its right operand otherwise); \<open>.lower()\<close> on a value that is not
  a string raises.
\<close>

definition init_handler :: "environ \<Rightarrow> conf \<Rightarrow> (string \<times> sect) list \<Rightarrow> error + handler" where
  "init_handler env c outs =
    (let eoepca = conf_section c ''eoepca'';
         url = section_get eoepca ''workspace_url'' (PStr []);
         prefix = section_get eoepca ''workspace_prefix'' (PStr []);
         use_ws = (truthy url \<and> truthy prefix);
         reg = (if use_ws
                then (case section_get eoepca ''workspace_catalog_register'' (PStr ''false'') of
                        PStr s \<Rightarrow> Inr (py_lower s = ''true'')
                      | _ \<Rightarrow> Inl AttributeError)
                else Inr False)
     in case reg of
          Inl e \<Rightarrow> Inl e
        | Inr r \<Rightarrow> Inr \<lparr> conf = init_config_defaults env c,
                       outputs = outs,
                       http_proxy_env = env ''HTTP_PROXY'',
                       domain = section_get eoepca ''domain'' (PStr []),
                       workspace_url = url,
                       workspace_prefix = prefix,
                       use_workspace = use_ws,
                       workspace_catalog_register = r,
                       username = PNone,
                       ades_rx_token = section_get (conf_section c ''auth_env'') ''jwt'' (PStr []) \<rparr>)"

subsection \<open>The proxy variable\<close>

text \<open>
  \<open>unset_http_proxy_env\<close> pops \<open>HTTP_PROXY\<close> from the environment (the popped value is only
  logged). \<open>restore_http_proxy_env\<close> writes back the value that the constructor read, when
  that value is truthy.
\<close>

definition unset_http_proxy_env :: "environ \<Rightarrow> environ" where
  "unset_http_proxy_env env = env(''HTTP_PROXY'' := None)"

definition restore_http_proxy_env :: "handler \<Rightarrow> environ \<Rightarrow> environ" where
  "restore_http_proxy_env h env =
     (case http_proxy_env h of
        None \<Rightarrow> env
      | Some v \<Rightarrow> (if v \<noteq> [] then env(''HTTP_PROXY'' \<mapsto> v) else env))"

subsection \<open>pre_execution_hook\<close>

text \<open>
  \<open>get_user_name(decodedJwt)\<close>: the value of the first of the three claim names that is a key
  of the decoded token, \<open>None\<close> when none is.
\<close>

fun first_claim :: "(string \<times> pyval) list \<Rightarrow> string list \<Rightarrow> pyval" where
  "first_claim d [] = PNone"
| "first_claim d (k # ks) = (case map_of d k of Some v \<Rightarrow> v | None \<Rightarrow> first_claim d ks)"

definition get_user_name :: "(string \<times> pyval) list \<Rightarrow> pyval" where
  "get_user_name d = first_claim d [''username'', ''user_name'', ''preferred_username'']"

text \<open>
  The user name (the first block of the hook's body): from the token when the token is truthy,
  else, and also when the name found is falsy, from the variable \<open>SERVICES_NAMESPACE\<close>
  (\<open>os.getenv\<close> gives \<open>None\<close> when it is unset). \<open>jwt.decode\<close> may raise.
\<close>

definition resolve_username :: "world \<Rightarrow> environ \<Rightarrow> handler \<Rightarrow> error + handler" where
  "resolve_username w env h =
     (case (if truthy (ades_rx_token h)
            then (case jwt_decode w (ades_rx_token h) of
                    Inl e \<Rightarrow> Inl e
                  | Inr claims \<Rightarrow> Inr (h\<lparr>username := get_user_name claims\<rparr>))
            else Inr h) of
        Inl e \<Rightarrow> Inl e
      | Inr h1 \<Rightarrow>
          Inr (if \<not> truthy (username h1)
               then h1\<lparr>username := (case env ''SERVICES_NAMESPACE'' of
                                       None \<Rightarrow> PNone | Some v \<Rightarrow> PStr v)\<rparr>
               else h1))"

text \<open>The URL and the headers of the workspace request.\<close>

definition workspace_api_endpoint :: "world \<Rightarrow> handler \<Rightarrow> error + string" where
  "workspace_api_endpoint w h =
     (let uri_for_request = ''workspaces/'' @ py_str (py_repr w) (workspace_prefix h) @ ''-''
                              @ py_str (py_repr w) (username h)
      in case workspace_url h of
           PStr u \<Rightarrow> Inr (path_join u [uri_for_request])
         | _ \<Rightarrow> Inl TypeError)"

definition request_headers :: "world \<Rightarrow> handler \<Rightarrow> string \<Rightarrow> (string \<times> string) list" where
  "request_headers w h accept_key =
     (if truthy (ades_rx_token h)
      then [(accept_key, ''application/json''),
            (''Authorization'', ''Bearer '' @ py_str (py_repr w) (ades_rx_token h))]
      else [(accept_key, ''application/json'')])"

text \<open>
  The five assignments of the good response. In each the right-hand side
  (\<open>storage_credentials.get(...)\<close>) is evaluated before \<open>self.conf["additional_parameters"]\<close>,
  so the first assignment raises or all five succeed.
\<close>

definition set_stageout :: "handler \<Rightarrow> pyval \<Rightarrow> error + handler" where
  "set_stageout h storage_credentials =
     (case storage_credentials of
        PDict kvs \<Rightarrow>
          (case conf h ''additional_parameters'' of
             None \<Rightarrow> Inl (KeyError ''additional_parameters'')
           | Some ap \<Rightarrow>
               Inr (h\<lparr>conf := (conf h)(''additional_parameters'' \<mapsto>
                      ap(''STAGEOUT_AWS_SERVICEURL'' \<mapsto> (case map_of kvs ''endpoint'' of None \<Rightarrow> PNone | Some v \<Rightarrow> v),
                         ''STAGEOUT_AWS_ACCESS_KEY_ID'' \<mapsto> (case map_of kvs ''access'' of None \<Rightarrow> PNone | Some v \<Rightarrow> v),
                         ''STAGEOUT_AWS_SECRET_ACCESS_KEY'' \<mapsto> (case map_of kvs ''secret'' of None \<Rightarrow> PNone | Some v \<Rightarrow> v),
                         ''STAGEOUT_AWS_REGION'' \<mapsto> (case map_of kvs ''region'' of None \<Rightarrow> PNone | Some v \<Rightarrow> v),
                         ''STAGEOUT_OUTPUT'' \<mapsto> (case map_of kvs ''bucketname'' of None \<Rightarrow> PNone | Some v \<Rightarrow> v)))\<rparr>))
      | _ \<Rightarrow> Inl AttributeError)"

text \<open>
  The workspace lookup (\<open>if self.use_workspace: ... else: ...\<close>). \<open>requests.get\<close> may raise;
  a response that is not \<open>ok\<close> switches \<open>use_workspace\<close> off and changes nothing else.
\<close>

definition lookup_workspace :: "world \<Rightarrow> handler \<Rightarrow> error + handler" where
  "lookup_workspace w h =
     (if use_workspace h
      then (case workspace_api_endpoint w h of
              Inl e \<Rightarrow> Inl e
            | Inr url \<Rightarrow>
                (case requests_get w url (request_headers w h ''accept'') of
                   Inl e \<Rightarrow> Inl e
                 | Inr r \<Rightarrow>
                     (if resp_ok r
                      then (case resp_json r of
                              Inl e \<Rightarrow> Inl e
                            | Inr workspace_response \<Rightarrow>
                                (case py_getitem workspace_response ''storage'' of
                                   Inl e \<Rightarrow> Inl e
                                 | Inr storage \<Rightarrow>
                                     (case py_getitem storage ''credentials'' of
                                        Inl e \<Rightarrow> Inl e
                                      | Inr storage_credentials \<Rightarrow> set_stageout h storage_credentials)))
                      else Inr (h\<lparr>use_workspace := False\<rparr>))))
      else Inr h)"

text \<open>
  The last two assignments of the body: \<open>collection_id\<close> from \<open>lenv.usid\<close>, then \<open>process\<close>.
  \<open>os.path.join\<close> raises on a value that is not a string, after \<open>collection_id\<close> is stored.
\<close>

definition set_collection_id :: "handler \<Rightarrow> error option \<times> handler" where
  "set_collection_id h =
     (let cid = section_get (conf_section (conf h) ''lenv'') ''usid'' (PStr [])
      in case conf h ''additional_parameters'' of
           None \<Rightarrow> (Some (KeyError ''additional_parameters''), h)
         | Some ap \<Rightarrow>
             (let h1 = h\<lparr>conf := (conf h)(''additional_parameters'' \<mapsto> ap(''collection_id'' \<mapsto> cid))\<rparr>
              in case cid of
                   PStr s \<Rightarrow>
                     (None, h\<lparr>conf := (conf h)(''additional_parameters'' \<mapsto>
                                ap(''collection_id'' \<mapsto> cid,
                                   ''process'' \<mapsto> PStr (path_join ''processing-results'' [s])))\<rparr>)
                 | _ \<Rightarrow> (Some TypeError, h1)))"

text \<open>
  The hook: \<open>try\<close> the body, log and re-raise any exception, and \<open>finally\<close> restore the proxy
  variable. The result is the exception raised (if any), the environment and the handler.
\<close>

definition pre_execution_hook :: "world \<Rightarrow> environ \<Rightarrow> handler \<Rightarrow> error option \<times> environ \<times> handler" where
  "pre_execution_hook w env h =
     (let env1 = unset_http_proxy_env env;
          r = (case resolve_username w env1 h of
                 Inl e \<Rightarrow> (Some e, h)
               | Inr h1 \<Rightarrow>
                   (case lookup_workspace w h1 of
                      Inl e \<Rightarrow> (Some e, h1)
                    | Inr h2 \<Rightarrow> set_collection_id h2))
      in (fst r, restore_http_proxy_env (snd r) env1, snd r))"

subsection \<open>handle_outputs\<close>

text \<open>One element of \<open>servicesLogs\<close>.\<close>

record service_log =
  url :: string
  title :: string
  rel :: string

text \<open>
  The first statement: \<open>main.tmpUrl\<close> gets the user's name in front of \<open>temp/\<close>. The method
  \<open>.replace\<close> is looked up before its arguments are evaluated.
\<close>

definition user_tmp_url :: "conf \<Rightarrow> error + string" where
  "user_tmp_url c =
     (case c ''main'' of
        None \<Rightarrow> Inl (KeyError ''main'')
      | Some m \<Rightarrow>
          (case m ''tmpUrl'' of
             None \<Rightarrow> Inl (KeyError ''tmpUrl'')
           | Some (PStr u) \<Rightarrow>
               (case c ''auth_env'' of
                  None \<Rightarrow> Inl (KeyError ''auth_env'')
                | Some a \<Rightarrow>
                    (case a ''user'' of
                       None \<Rightarrow> Inl (KeyError ''user'')
                     | Some (PStr usr) \<Rightarrow> Inr (replace_str ''temp/'' (usr @ ''/temp/'') u)
                     | Some _ \<Rightarrow> Inl TypeError))
           | Some _ \<Rightarrow> Inl AttributeError))"

text \<open>One entry of the list comprehension, for one tool log.\<close>

definition tool_log_entry :: "world \<Rightarrow> conf \<Rightarrow> string \<Rightarrow> error + service_log" where
  "tool_log_entry w c tool_log =
     (case c ''main'' of
        None \<Rightarrow> Inl (KeyError ''main'')
      | Some m \<Rightarrow>
          (case m ''tmpUrl'' of
             None \<Rightarrow> Inl (KeyError ''tmpUrl'')
           | Some tmp \<Rightarrow>
               (case c ''lenv'' of
                  None \<Rightarrow> Inl (KeyError ''lenv'')
                | Some l \<Rightarrow>
                    (case l ''Identifier'' of
                       None \<Rightarrow> Inl (KeyError ''Identifier'')
                     | Some ident \<Rightarrow>
                         (case l ''usid'' of
                            None \<Rightarrow> Inl (KeyError ''usid'')
                          | Some usid \<Rightarrow>
                              (case tmp of
                                 PStr t \<Rightarrow>
                                   Inr \<lparr> url = path_join t [py_str (py_repr w) ident @ ''-''
                                                              @ py_str (py_repr w) usid,
                                                            basename tool_log],
                                         title = ''Tool log '' @ basename tool_log,
                                         rel = ''related'' \<rparr>
                               | _ \<Rightarrow> Inl TypeError))))))"

fun services_logs :: "world \<Rightarrow> conf \<Rightarrow> string list \<Rightarrow> error + service_log list" where
  "services_logs w c [] = Inr []"
| "services_logs w c (t # ts) =
     (case tool_log_entry w c t of
        Inl e \<Rightarrow> Inl e
      | Inr x \<Rightarrow> (case services_logs w c ts of Inl e \<Rightarrow> Inl e | Inr xs \<Rightarrow> Inr (x # xs)))"

text \<open>
  The loop over \<open>servicesLogs\<close>: the three keys carry the suffix \<open>_cindex\<close> when \<open>cindex > 0\<close>,
  the section is created when missing, the three values are stored, \<open>cindex\<close> grows by one.
\<close>

definition suffixed :: "nat \<Rightarrow> string \<Rightarrow> string" where
  "suffixed cindex k = (if cindex > 0 then k @ ''_'' @ str_nat cindex else k)"

fun store_logs :: "nat \<Rightarrow> service_log list \<Rightarrow> conf \<Rightarrow> conf" where
  "store_logs cindex [] c = c"
| "store_logs cindex (x # xs) c =
     (let c1 = (if c ''service_logs'' = None then c(''service_logs'' \<mapsto> Map.empty) else c);
          sl = conf_section c1 ''service_logs''
      in store_logs (cindex + 1) xs
           (c1(''service_logs'' \<mapsto> sl(suffixed cindex ''url'' \<mapsto> PStr (url x),
                                         suffixed cindex ''title'' \<mapsto> PStr (title x),
                                         suffixed cindex ''rel'' \<mapsto> PStr (rel x)))))"

text \<open>
  \<open>handle_outputs(log, output, usage_report, tool_logs)\<close>; only \<open>tool_logs\<close> is used. An
  exception is logged and re-raised; what was written to \<open>conf\<close> before it stays written.
\<close>

definition handle_outputs :: "world \<Rightarrow> handler \<Rightarrow> string list \<Rightarrow> error option \<times> handler" where
  "handle_outputs w h tool_logs =
     (case user_tmp_url (conf h) of
        Inl e \<Rightarrow> (Some e, h)
      | Inr u \<Rightarrow>
          (let c1 = (conf h)(''main'' \<mapsto> (conf_section (conf h) ''main'')(''tmpUrl'' \<mapsto> PStr u))
           in case services_logs w c1 tool_logs of
                Inl e \<Rightarrow> (Some e, h\<lparr>conf := c1\<rparr>)
              | Inr servicesLogs \<Rightarrow>
                  (let cindex = (if c1 ''service_logs'' \<noteq> None then 1 else 0);
                       c2 = store_logs cindex servicesLogs c1
                   in case c2 ''service_logs'' of
                        None \<Rightarrow> (Some (KeyError ''service_logs''), h\<lparr>conf := c2\<rparr>)
                      | Some sl \<Rightarrow>
                          (None, h\<lparr>conf := c2(''service_logs'' \<mapsto>
                                     sl(''length'' \<mapsto> PStr (str_nat (length servicesLogs))))\<rparr>))))"

subsection \<open>The failure branch of the service function\<close>

text \<open>
  What the \<open>except\<close> branch of the service function uses of the runner: the namespace name,
  the execution log and the tool logs (the last two may raise).
\<close>

record runner =
  get_namespace_name :: string
  get_log :: "error + string"
  get_tool_logs :: "error + string list"

text \<open>
  The first \<open>try\<close> block up to the end of the \<open>with\<close> statement: the path of \<open>job.log\<close>, the
  opening of the file (\<open>opened\<close> is what the file system answers for the path) and the log
  written to it. The name \<open>runner\<close> is unbound when the exception came before its assignment.
\<close>

definition save_job_log :: "(string \<Rightarrow> error option) \<Rightarrow> conf \<Rightarrow> runner option \<Rightarrow> error option" where
  "save_job_log opened c rn =
     (case c ''main'' of
        None \<Rightarrow> Some (KeyError ''main'')
      | Some m \<Rightarrow>
          (case m ''tmpPath'' of
             None \<Rightarrow> Some (KeyError ''tmpPath'')
           | Some p \<Rightarrow>
               (case rn of
                  None \<Rightarrow> Some NameError
                | Some r \<Rightarrow>
                    (case p of
                       PStr tmpPath \<Rightarrow>
                         (case opened (path_join tmpPath [get_namespace_name r, ''job.log'']) of
                            Some e \<Rightarrow> Some e
                          | None \<Rightarrow> (case get_log r of Inl e \<Rightarrow> Some e | Inr l \<Rightarrow> None))
                     | _ \<Rightarrow> Some TypeError))))"

text \<open>
  The rest of the first \<open>try\<close> block: the job-log entry. The keys carry the suffix
  \<open>_\<close> and \<open>str(int(length))\<close> when the section has a \<open>length\<close>; the last assignment stores the
  length \<open>"1"\<close>.
\<close>

definition append_job_log :: "conf \<Rightarrow> string \<Rightarrow> error option \<times> conf" where
  "append_job_log c ns =
     (let c1 = (if c ''service_logs'' = None then c(''service_logs'' \<mapsto> Map.empty) else c);
          sl = conf_section c1 ''service_logs''
      in case (case sl ''length'' of
                 None \<Rightarrow> Inr []
               | Some v \<Rightarrow> (case py_int v of Inl e \<Rightarrow> Inl e | Inr i \<Rightarrow> Inr (''_'' @ str_int i))) of
           Inl e \<Rightarrow> (Some e, c1)
         | Inr sfx \<Rightarrow>
             (case user_tmp_url c1 of
                Inl e \<Rightarrow> (Some e, c1)
              | Inr u \<Rightarrow>
                  (None, c1(''service_logs'' \<mapsto>
                           sl(''url'' @ sfx \<mapsto> PStr (path_join u [ns, ''job.log'']),
                              ''title'' @ sfx \<mapsto> PStr ''Job pod log'',
                              ''rel'' @ sfx \<mapsto> PStr ''related'',
                              ''length'' \<mapsto> PStr ''1'')))))"

text \<open>
  The two \<open>try\<close> blocks of the failure branch, each with its own \<open>except Exception\<close> that only
  logs: first the job log and its entry, then the tool logs through \<open>handle_outputs\<close>.
\<close>

definition failure_branch :: "world \<Rightarrow> (string \<Rightarrow> error option) \<Rightarrow> handler \<Rightarrow> runner option \<Rightarrow> handler" where
  "failure_branch w opened h rn =
     (let h1 = (case save_job_log opened (conf h) rn of
                  Some e \<Rightarrow> h
                | None \<Rightarrow>
                    (case rn of
                       None \<Rightarrow> h
                     | Some r \<Rightarrow> h\<lparr>conf := snd (append_job_log (conf h) (get_namespace_name r))\<rparr>))
      in case rn of
           None \<Rightarrow> h1
         | Some r \<Rightarrow>
             (case get_tool_logs r of
                Inl e \<Rightarrow> h1
              | Inr tool_logs \<Rightarrow> snd (handle_outputs w h1 tool_logs)))"

subsection \<open>setOutput\<close>

text \<open>
  The local variables of \<open>setOutput\<close> that outlive one turn of its loop. \<open>items\<close> is the list
  \<open>[]\<close> of the start or the generator that \<open>cat.get_all_items()\<close> returned; a variable that
  was never assigned is \<open>None\<close> here, and the Python value \<open>None\<close> of \<open>collection\<close> is
  \<open>Some None\<close>. \<open>Native\<close> is a pystac \<open>Collection\<close>, \<open>Synthetic\<close> an \<open>ItemCollection\<close>.
\<close>

datatype coll = Native collection | Synthetic "item list"

datatype items_var = ItemsList "item list" | ItemsGenerator

record locals =
  l_items :: items_var
  l_itemFinal :: "item list option"
  l_collection :: "coll option option"
  l_collection_id :: "pyval option"

datatype loop_result = Raised error | Sentinel | Completed locals

text \<open>The five storage fields written into the dict of one asset, in the source's order.\<close>

definition stamp_asset :: "conf \<Rightarrow> (string \<times> pyval) list \<Rightarrow> error + (string \<times> pyval) list" where
  "stamp_asset c cDict =
     (let d = AList.update ''storage:tier'' (PStr ''Standard'')
                (AList.update ''storage:requester_pays'' (PBool False)
                  (AList.update ''storage:platform'' (PStr ''EOEPCA'') cDict))
      in case c ''additional_parameters'' of
           None \<Rightarrow> Inl (KeyError ''additional_parameters'')
         | Some ap \<Rightarrow>
             (case ap ''STAGEOUT_AWS_REGION'' of
                None \<Rightarrow> Inl (KeyError ''STAGEOUT_AWS_REGION'')
              | Some region \<Rightarrow>
                  (case ap ''STAGEOUT_AWS_SERVICEURL'' of
                     None \<Rightarrow> Inl (KeyError ''STAGEOUT_AWS_SERVICEURL'')
                   | Some endpoint \<Rightarrow>
                       Inr (AList.update ''storage:endpoint'' endpoint
                             (AList.update ''storage:region'' region d)))))"

fun stamp_assets :: "conf \<Rightarrow> (string \<times> (string \<times> pyval) list) list
                      \<Rightarrow> error + (string \<times> (string \<times> pyval) list) list" where
  "stamp_assets c [] = Inr []"
| "stamp_assets c ((a, cDict) # rest) =
     (case stamp_asset c cDict of
        Inl e \<Rightarrow> Inl e
      | Inr d \<Rightarrow> (case stamp_assets c rest of Inl e \<Rightarrow> Inl e | Inr ds \<Rightarrow> Inr ((a, d) # ds)))"

text \<open>
  The inner \<open>try\<close> (no collection was found): \<open>items = cat.get_all_items()\<close>, \<open>itemFinal = []\<close>,
  then the loop over the items. For the first item the assets are stamped, the item gets the
  collection id and its clone joins \<open>itemFinal\<close>; then \<open>items.append(...)\<close> raises, a generator
  having no \<open>append\<close>. Every exception ends the block with \<open>collection\<close> still \<open>None\<close>; only
  a generator that yields nothing lets the block reach \<open>ItemCollection(items=itemFinal)\<close>.
\<close>

definition items_branch :: "conf \<Rightarrow> pyval \<Rightarrow> stac_doc \<Rightarrow> locals \<Rightarrow> locals" where
  "items_branch c cid cat l =
     (case get_all_items cat of
        Inl e \<Rightarrow> l
      | Inr gen \<Rightarrow>
          (let l1 = l\<lparr>l_items := ItemsGenerator, l_itemFinal := Some []\<rparr>
           in case gen of
                Inl e \<Rightarrow> l1
              | Inr [] \<Rightarrow> l1\<lparr>l_collection := Some (Some (Synthetic []))\<rparr>
              | Inr (i # rest) \<Rightarrow>
                  (case stamp_assets c (assets i) of
                     Inl e \<Rightarrow> l1
                   | Inr stamped \<Rightarrow>
                       l1\<lparr>l_itemFinal := Some [i\<lparr>assets := stamped, collection_id := cid\<rparr>]\<rparr>)))"

text \<open>
  The outer \<open>try\<close> of one turn: the path gets the scheme \<open>s3://\<close> when it has none, and the
  document is read. A path that is not a string raises inside the \<open>try\<close> as well.
\<close>

definition load_catalog :: "world \<Rightarrow> environ \<Rightarrow> pyval \<Rightarrow> error + stac_doc" where
  "load_catalog w env s3_path =
     (case s3_path of
        PStr s \<Rightarrow> read_file w env (if \<not> contains ''s3://'' s then ''s3://'' @ s else s)
      | PList xs \<Rightarrow> Inl TypeError
      | _ \<Rightarrow> Inl AttributeError)"

text \<open>
  The loop over \<open>values[outputName]\<close>: a \<open>None\<close> element breaks it, a document that cannot be
  read ends \<open>setOutput\<close> with the sentinel, and otherwise the turn leaves in \<open>collection\<close> the
  first collection of the document, or what the inner \<open>try\<close> made of its items.
\<close>

fun output_loop :: "world \<Rightarrow> environ \<Rightarrow> conf \<Rightarrow> pyval list \<Rightarrow> locals \<Rightarrow> loop_result" where
  "output_loop w env c [] l = Completed l"
| "output_loop w env c (v # vs) l =
     (if v = PNone then Completed l
      else (case py_getitem v ''value'' of
              Inl e \<Rightarrow> Raised e
            | Inr s3_path \<Rightarrow>
                (case load_catalog w env s3_path of
                   Inl e \<Rightarrow> Sentinel
                 | Inr cat \<Rightarrow>
                     (case c ''additional_parameters'' of
                        None \<Rightarrow> Raised (KeyError ''additional_parameters'')
                      | Some ap \<Rightarrow>
                          (case ap ''collection_id'' of
                             None \<Rightarrow> Raised (KeyError ''collection_id'')
                           | Some cid \<Rightarrow>
                               (let l1 = l\<lparr>l_collection := Some None, l_collection_id := Some cid\<rparr>
                                in output_loop w env c vs
                                     (case get_all_collections cat of
                                        Inr (x # xs) \<Rightarrow> l1\<lparr>l_collection := Some (Some (Native x))\<rparr>
                                      | _ \<Rightarrow> items_branch c cid cat l1)))))))"

text \<open>\<open>collection.to_dict()\<close> and \<open>collection.get_self_href()\<close>; an \<open>ItemCollection\<close> has no href.\<close>

definition coll_to_dict :: "world \<Rightarrow> coll \<Rightarrow> (string \<times> pyval) list" where
  "coll_to_dict w col =
     (case col of
        Native x \<Rightarrow> to_dict x
      | Synthetic its \<Rightarrow> [(''type'', PStr ''FeatureCollection''),
                          (''features'', PList (map (item_to_dict w) its))])"

definition coll_self_href :: "coll \<Rightarrow> error + pyval" where
  "coll_self_href col = (case col of Native x \<Rightarrow> Inr (get_self_href x) | Synthetic its \<Rightarrow> Inl AttributeError)"

text \<open>The two POST requests of the catalogue registration; only an exception matters.\<close>

definition register_collection :: "world \<Rightarrow> handler \<Rightarrow> coll \<Rightarrow> (string \<times> pyval) list \<Rightarrow> error option" where
  "register_collection w h col collection_dict =
     (let headers = request_headers w h ''Accept'';
          api_endpoint = py_str (py_repr w) (workspace_url h) @ ''/workspaces/''
                           @ py_str (py_repr w) (workspace_prefix h) @ ''-''
                           @ py_str (py_repr w) (username h)
      in case requests_post w (api_endpoint @ ''/register-json'') (PDict collection_dict) headers of
           Inl e \<Rightarrow> Some e
         | Inr r \<Rightarrow>
             (case coll_self_href col of
                Inl e \<Rightarrow> Some e
              | Inr href \<Rightarrow>
                  (case requests_post w (api_endpoint @ ''/register'')
                          (PDict [(''type'', PStr ''stac-item''), (''url'', href)]) headers of
                     Inl e \<Rightarrow> Some e
                   | Inr r2 \<Rightarrow> None)))"

text \<open>Writing \<open>output["collection"]\<close>, where \<open>output\<close> is the dict \<open>self.outputs[outputName]\<close>.\<close>

definition set_output_collection :: "handler \<Rightarrow> string \<Rightarrow> sect \<Rightarrow> pyval \<Rightarrow> handler" where
  "set_output_collection h outputName output v =
     h\<lparr>outputs := AList.update outputName (output(''collection'' \<mapsto> v)) (outputs h)\<rparr>"

text \<open>
  \<open>setOutput(outputName, values)\<close>. The result is the exception raised (if any), the handler
  and \<open>values\<close>, whose entry is wrapped into a list when it was none.
  \<open>json.dumps({}, indent=2)\<close> is the string \<open>{}\<close>.
\<close>

definition setOutput :: "world \<Rightarrow> environ \<Rightarrow> handler \<Rightarrow> string \<Rightarrow> (string \<rightharpoonup> pyval)
                          \<Rightarrow> error option \<times> handler \<times> (string \<rightharpoonup> pyval)" where
  "setOutput w env h outputName vals =
     (case map_of (outputs h) outputName of
        None \<Rightarrow> (Some (KeyError outputName), h, vals)
      | Some output \<Rightarrow>
          (case vals outputName of
             None \<Rightarrow> (Some (KeyError outputName), h, vals)
           | Some v \<Rightarrow>
               (let refs = (case v of PList xs \<Rightarrow> xs | _ \<Rightarrow> [v]);
                    vals1 = vals(outputName \<mapsto> PList refs)
                in case output_loop w env (conf h) refs
                          \<lparr>l_items = ItemsList [], l_itemFinal = None,
                           l_collection = None, l_collection_id = None\<rparr> of
                     Raised e \<Rightarrow> (Some e, h, vals1)
                   | Sentinel \<Rightarrow> (None, set_output_collection h outputName output (PStr ''{}''), vals1)
                   | Completed l \<Rightarrow>
                       (case l_collection l of
                          None \<Rightarrow> (Some UnboundLocalError, h, vals1)
                        | Some None \<Rightarrow>
                            (None, set_output_collection h outputName output (PStr ''{}''), vals1)
                        | Some (Some col0) \<Rightarrow>
                            (case (case l_items l of
                                     ItemsGenerator \<Rightarrow> Inl TypeError
                                   | ItemsList its \<Rightarrow>
                                       (if length its > 0
                                        then (case l_itemFinal l of
                                                None \<Rightarrow> Inl UnboundLocalError
                                              | Some f \<Rightarrow> Inr (Synthetic f))
                                        else Inr col0)) of
                               Inl e \<Rightarrow> (Some e, h, vals1)
                             | Inr col \<Rightarrow>
                                 (case l_collection_id l of
                                    None \<Rightarrow> (Some UnboundLocalError, h, vals1)
                                  | Some cid \<Rightarrow>
                                      (let collection_dict = AList.update ''id'' cid (coll_to_dict w col);
                                           h1 = set_output_collection h outputName output
                                                  (PDict collection_dict)
                                       in (if workspace_catalog_register h
                                           then register_collection w h col collection_dict
                                           else None, h1, vals1))))))))"

subsection \<open>post_execution_hook\<close>

text \<open>
  The four assignments to \<open>os.environ\<close>, given as pairs of variable and configuration key.
  \<open>os.environ\<close> takes strings only.
\<close>

definition stageout_env :: "(string \<times> string) list" where
  "stageout_env = [(''AWS_S3_ENDPOINT'', ''STAGEOUT_AWS_SERVICEURL''),
                   (''AWS_ACCESS_KEY_ID'', ''STAGEOUT_AWS_ACCESS_KEY_ID''),
                   (''AWS_SECRET_ACCESS_KEY'', ''STAGEOUT_AWS_SECRET_ACCESS_KEY''),
                   (''AWS_REGION'', ''STAGEOUT_AWS_REGION'')]"

fun publish_env :: "conf \<Rightarrow> (string \<times> string) list \<Rightarrow> environ \<Rightarrow> error option \<times> environ" where
  "publish_env c [] env = (None, env)"
| "publish_env c ((var, key) # rest) env =
     (case c ''additional_parameters'' of
        None \<Rightarrow> (Some (KeyError ''additional_parameters''), env)
      | Some ap \<Rightarrow>
          (case ap key of
             None \<Rightarrow> (Some (KeyError key), env)
           | Some (PStr s) \<Rightarrow> publish_env c rest (env(var \<mapsto> s))
           | Some _ \<Rightarrow> (Some TypeError, env)))"

text \<open>
  The loop \<open>for i in self.outputs\<close> over the names given: an output with a \<open>mimeType\<close> goes to
  \<open>setOutput\<close>, any other gets \<open>str(output[i])\<close> as its \<open>value\<close>.
\<close>

fun map_outputs :: "world \<Rightarrow> environ \<Rightarrow> string list \<Rightarrow> handler \<Rightarrow> (string \<rightharpoonup> pyval)
                     \<Rightarrow> error option \<times> handler \<times> (string \<rightharpoonup> pyval)" where
  "map_outputs w env [] h vals = (None, h, vals)"
| "map_outputs w env (i # names) h vals =
     (case map_of (outputs h) i of
        None \<Rightarrow> (Some (KeyError i), h, vals)
      | Some d \<Rightarrow>
          (if d ''mimeType'' \<noteq> None
           then (case setOutput w env h i vals of
                   (Some e, h1, vals1) \<Rightarrow> (Some e, h1, vals1)
                 | (None, h1, vals1) \<Rightarrow> map_outputs w env names h1 vals1)
           else (case vals i of
                   None \<Rightarrow> (Some (KeyError i), h, vals)
                 | Some v \<Rightarrow>
                     map_outputs w env names
                       (h\<lparr>outputs := AList.update i (d(''value'' \<mapsto> PStr (py_str (py_repr w) v)))
                                       (outputs h)\<rparr>) vals)))"

text \<open>
  \<open>post_execution_hook(log, output, usage_report, tool_logs)\<close>; only \<open>output\<close> is used. The
  result is the exception re-raised (if any), the environment after the \<open>finally\<close> clause,
  the handler and \<open>output\<close>.
\<close>

definition post_execution_hook :: "world \<Rightarrow> environ \<Rightarrow> handler \<Rightarrow> (string \<rightharpoonup> pyval)
     \<Rightarrow> error option \<times> environ \<times> handler \<times> (string \<rightharpoonup> pyval)" where
  "post_execution_hook w env h output =
     (let env1 = unset_http_proxy_env env;
          p = publish_env (conf h) stageout_env env1;
          r = (case fst p of
                 Some e \<Rightarrow> (Some e, h, output)
               | None \<Rightarrow> map_outputs w (snd p) (map fst (outputs h)) h output)
      in (fst r, restore_http_proxy_env (fst (snd r)) (snd p), snd r))"

subsection \<open>local_get_file and get_secrets\<close>



section \<open>Concrete inputs\<close>

text \<open>
  Worlds, configurations and handlers on which the theorems below are instantiated.
  In \<open>world_down\<close> no service answers and no file exists.
\<close>

definition world_down :: world where
  "world_down =
     \<lparr> requests_get = (\<lambda>u hs. Inl (OtherError ''ConnectionError'')),
       requests_post = (\<lambda>u body hs. Inl (OtherError ''ConnectionError'')),
       jwt_decode = (\<lambda>t. Inl (OtherError ''DecodeError'')),
       read_file = (\<lambda>env uri. Inl (OtherError ''NoSuchKey'')),
       open_read = (\<lambda>p. Inl FileNotFoundError),
       yaml_safe_load = (\<lambda>s. Inl YAMLError),
       item_to_dict = (\<lambda>i. PDict []),
       py_repr = (\<lambda>v. ''...'') \<rparr>"

text \<open>The workspace API answers 403.\<close>

definition forbidden :: response where
  "forbidden = \<lparr> resp_ok = False, resp_status_code = 403, resp_text = ''Forbidden'',
                 resp_json = Inl (OtherError ''JSONDecodeError'') \<rparr>"

definition world_forbidden :: world where
  "world_forbidden = world_down\<lparr> requests_get := (\<lambda>u hs. Inr forbidden) \<rparr>"


text \<open>Tokens whose claims carry an empty \<open>username\<close>, and a name under \<open>user_name\<close>.\<close>

definition world_empty_claim :: world where
  "world_empty_claim = world_down\<lparr> jwt_decode := (\<lambda>t. Inr [(''username'', PStr [])]) \<rparr>"

definition world_alice :: world where
  "world_alice = world_down\<lparr> jwt_decode :=
     (\<lambda>t. Inr [(''preferred_username'', PStr ''bob''), (''user_name'', PStr ''alice'')]) \<rparr>"

text \<open>
  The object store holds one catalog, at \<open>s3://bucket/run/catalog.json\<close>, with one collection
  whose id is \<open>original\<close>; no other document can be read.
\<close>

definition stored_collection :: collection where
  "stored_collection = \<lparr> to_dict = [(''type'', PStr ''Collection''), (''id'', PStr ''original'')],
                          get_self_href = PStr ''s3://bucket/run/collection.json'' \<rparr>"

definition world_catalog :: world where
  "world_catalog = world_down\<lparr> read_file :=
     (\<lambda>env uri. if uri = ''s3://bucket/run/catalog.json''
                then Inr \<lparr> get_all_collections = Inr [stored_collection],
                           get_all_items = Inr (Inr []) \<rparr>
                else Inl (OtherError ''NoSuchKey'')) \<rparr>"

text \<open>Configurations: with a workspace, with a token, and the sections that \<open>handle_outputs\<close> reads.\<close>

definition conf_workspace :: conf where
  "conf_workspace = [''eoepca'' \<mapsto> [''workspace_url'' \<mapsto> PStr ''http://ws'',
                                        ''workspace_prefix'' \<mapsto> PStr ''ws''],
                     ''lenv'' \<mapsto> [''usid'' \<mapsto> PStr ''u1'']]"

definition conf_token :: conf where
  "conf_token = [''auth_env'' \<mapsto> [''jwt'' \<mapsto> PStr ''a.b.c'']]"

definition conf_job :: conf where
  "conf_job = [''main'' \<mapsto> [''tmpUrl'' \<mapsto> PStr ''http://host/temp/'', ''tmpPath'' \<mapsto> PStr ''/tmp''],
               ''auth_env'' \<mapsto> [''user'' \<mapsto> PStr ''bob''],
               ''lenv'' \<mapsto> [''Identifier'' \<mapsto> PStr ''proc'', ''usid'' \<mapsto> PStr ''u1'']]"

definition conf_no_auth :: conf where
  "conf_no_auth = [''main'' \<mapsto> [''tmpUrl'' \<mapsto> PStr ''http://host/temp/'', ''tmpPath'' \<mapsto> PStr ''/tmp''],
                   ''lenv'' \<mapsto> [''Identifier'' \<mapsto> PStr ''proc'', ''usid'' \<mapsto> PStr ''u1'']]"

text \<open>A runner with one tool log, and a file system that accepts every write.\<close>

definition runner_one_log :: runner where
  "runner_one_log = \<lparr> get_namespace_name = ''ns'', get_log = Inr ''log text'',
                       get_tool_logs = Inr [''/work/step.log''] \<rparr>"

definition writable :: "string \<Rightarrow> error option" where
  "writable p = None"

text \<open>Outputs: one with a \<open>mimeType\<close>, one without; and what the engine produced for them.\<close>

definition outputs_demo :: "(string \<times> sect) list" where
  "outputs_demo = [(''stac'', [''mimeType'' \<mapsto> PStr ''application/json'']), (''count'', Map.empty)]"

definition engine_output :: "string \<rightharpoonup> pyval" where
  "engine_output = [''stac'' \<mapsto> PDict [(''value'', PStr ''bucket/run/catalog.json'')],
                    ''count'' \<mapsto> PStr ''42'']"

text \<open>
  A handler with the fields that the constructor sets when the configuration names no
  workspace and no token; the handlers below change single fields of it.
\<close>

definition plain_handler :: "conf \<Rightarrow> (string \<times> sect) list \<Rightarrow> handler" where
  "plain_handler c outs =
     \<lparr> conf = c, outputs = outs, http_proxy_env = None, domain = PStr [],
       workspace_url = PStr [], workspace_prefix = PStr [], use_workspace = False,
       workspace_catalog_register = False, username = PNone, ades_rx_token = PStr [] \<rparr>"

text \<open>Environments: the proxy variable set to the empty string, set to a proxy, and a namespace.\<close>

definition env_empty_proxy :: environ where
  "env_empty_proxy = [''HTTP_PROXY'' \<mapsto> []]"

definition env_proxy :: environ where
  "env_proxy = [''HTTP_PROXY'' \<mapsto> ''http://proxy:3128'']"

definition env_namespace :: environ where
  "env_namespace = [''SERVICES_NAMESPACE'' \<mapsto> ''ns'']"

definition handler_empty_proxy :: handler where
  "handler_empty_proxy =
     (plain_handler (init_config_defaults env_empty_proxy conf_job) [])\<lparr>http_proxy_env := Some []\<rparr>"

definition handler_proxy :: handler where
  "handler_proxy =
     (plain_handler (init_config_defaults env_proxy conf_job) outputs_demo)
       \<lparr>http_proxy_env := Some ''http://proxy:3128''\<rparr>"

definition handler_token :: handler where
  "handler_token =
     (plain_handler (init_config_defaults env_namespace conf_token) [])\<lparr>ades_rx_token := PStr ''a.b.c''\<rparr>"

definition handler_workspace :: handler where
  "handler_workspace =
     (plain_handler (init_config_defaults Map.empty conf_workspace) [])
       \<lparr>workspace_url := PStr ''http://ws'', workspace_prefix := PStr ''ws'', use_workspace := True\<rparr>"

definition handler_job :: handler where
  "handler_job = plain_handler (init_config_defaults Map.empty conf_job) outputs_demo"

definition handler_no_auth :: handler where
  "handler_no_auth = plain_handler (init_config_defaults Map.empty conf_no_auth) []"

text \<open>The handler after the last step of the pre-execution hook: \<open>collection_id\<close> is stored.\<close>

definition handler_ready :: handler where
  "handler_ready = snd (set_collection_id handler_job)"

text \<open>A configuration whose \<open>service_logs\<close> already holds two entries.\<close>

definition conf_two_logs :: conf where
  "conf_two_logs = conf_job(''service_logs'' \<mapsto>
     [''url'' \<mapsto> PStr ''http://host/bob/temp/proc-u1/a.log'',
      ''title'' \<mapsto> PStr ''Tool log a.log'', ''rel'' \<mapsto> PStr ''related'',
      ''url_1'' \<mapsto> PStr ''http://host/bob/temp/proc-u1/b.log'',
      ''title_1'' \<mapsto> PStr ''Tool log b.log'', ''rel_1'' \<mapsto> PStr ''related'',
      ''length'' \<mapsto> PStr ''2''])"

text \<open>
  An element of \<open>values[outputName]\<close> is a reference when \<open>element["value"]\<close> can be read.
\<close>

definition is_reference :: "pyval \<Rightarrow> bool" where
  "is_reference r = (case py_getitem r ''value'' of Inl e \<Rightarrow> False | Inr p \<Rightarrow> True)"

text \<open>An engine output with two references, the second to a document that does not exist.\<close>

definition engine_output_two :: "string \<rightharpoonup> pyval" where
  "engine_output_two = [''stac'' \<mapsto> PList [PDict [(''value'', PStr ''bucket/run/catalog.json'')],
                                              PDict [(''value'', PStr ''s3://bucket/run/missing.json'')]]]"

text \<open>
  The workspace API answers with a response whose \<open>ok\<close> flag is set and whose body is not
  JSON (status 304, which \<open>requests\<close> counts as \<open>ok\<close>).
\<close>

definition not_modified :: response where
  "not_modified = \<lparr> resp_ok = True, resp_status_code = 304, resp_text = [],
                     resp_json = Inl (OtherError ''JSONDecodeError'') \<rparr>"

definition world_not_modified :: world where
  "world_not_modified = world_down\<lparr> requests_get := (\<lambda>u hs. Inr not_modified) \<rparr>"

text \<open>
  A configuration that asks for catalogue registration, its handler, and a world in which
  the workspace API answers 403 to the GET, the catalog can be read and a POST cannot
  connect.
\<close>

definition conf_register :: conf where
  "conf_register = [''eoepca'' \<mapsto> [''workspace_url'' \<mapsto> PStr ''http://ws'',
                                       ''workspace_prefix'' \<mapsto> PStr ''ws'',
                                       ''workspace_catalog_register'' \<mapsto> PStr ''true''],
                    ''lenv'' \<mapsto> [''usid'' \<mapsto> PStr ''u1'']]"

definition handler_register :: handler where
  "handler_register =
     (plain_handler (init_config_defaults Map.empty conf_register) outputs_demo)
       \<lparr>workspace_url := PStr ''http://ws'', workspace_prefix := PStr ''ws'',
        use_workspace := True, workspace_catalog_register := True\<rparr>"

definition world_forbidden_catalog :: world where
  "world_forbidden_catalog = world_catalog\<lparr> requests_get := (\<lambda>u hs. Inr forbidden) \<rparr>"

text \<open>
  An object store with three documents: the catalog above, a second catalog whose
  collection has the id \<open>other\<close> and a title, and a catalog that has no collection and one item.
\<close>

definition other_collection :: collection where
  "other_collection = \<lparr> to_dict = [(''type'', PStr ''Collection''), (''id'', PStr ''other''),
                                    (''title'', PStr ''second'')],
                         get_self_href = PStr ''s3://bucket/run/other-collection.json'' \<rparr>"

definition world_three_documents :: world where
  "world_three_documents = world_down\<lparr> read_file :=
     (\<lambda>env uri. if uri = ''s3://bucket/run/catalog.json''
                then Inr \<lparr> get_all_collections = Inr [stored_collection],
                           get_all_items = Inr (Inr []) \<rparr>
                else if uri = ''s3://bucket/run/other.json''
                then Inr \<lparr> get_all_collections = Inr [other_collection],
                           get_all_items = Inr (Inr []) \<rparr>
                else if uri = ''s3://bucket/run/items.json''
                then Inr \<lparr> get_all_collections = Inr [],
                           get_all_items = Inr (Inr [\<lparr> assets = [], collection_id = PNone \<rparr>]) \<rparr>
                else Inl (OtherError ''NoSuchKey'')) \<rparr>"

definition engine_output_native_then_items :: "string \<rightharpoonup> pyval" where
  "engine_output_native_then_items =
     [''stac'' \<mapsto> PList [PDict [(''value'', PStr ''s3://bucket/run/catalog.json'')],
                          PDict [(''value'', PStr ''s3://bucket/run/items.json'')]]]"

definition engine_output_two_natives :: "string \<rightharpoonup> pyval" where
  "engine_output_two_natives =
     [''stac'' \<mapsto> PList [PDict [(''value'', PStr ''s3://bucket/run/catalog.json'')],
                          PDict [(''value'', PStr ''s3://bucket/run/other.json'')]]]"

text \<open>One field of one output, and the references whose document has a collection.\<close>

definition output_field :: "(string \<times> sect) list \<Rightarrow> string \<Rightarrow> string \<Rightarrow> pyval option" where
  "output_field outs name key = (case map_of outs name of None \<Rightarrow> None | Some d \<Rightarrow> d key)"

definition has_native :: "world \<Rightarrow> environ \<Rightarrow> pyval \<Rightarrow> bool" where
  "has_native w env r =
     (case py_getitem r ''value'' of
        Inl e \<Rightarrow> False
      | Inr p \<Rightarrow>
          (case load_catalog w env p of
             Inl e \<Rightarrow> False
           | Inr cat \<Rightarrow>
               (case get_all_collections cat of
                  Inr (x # xs) \<Rightarrow> True
                | _ \<Rightarrow> False)))"



section \<open>Properties\<close>

subsection \<open>Credential defaults\<close>

text \<open>
  C7. After \<open>init_config_defaults\<close> the section \<open>additional_parameters\<close> exists and holds all
  nine staging keys, and applying the function a second time under the same environment
  changes nothing.
\<close>

theorem init_config_defaults_nine_keys_idempotent:
  "(\<exists>ap. init_config_defaults env c ''additional_parameters'' = Some ap
          \<and> set (stagein_keys @ stageout_keys) \<subseteq> dom ap)
   \<and> init_config_defaults env (init_config_defaults env c) = init_config_defaults env c"
  by (simp add: init_config_defaults_def conf_section_def Let_def stagein_keys_def stageout_keys_def)

subsection \<open>The image-pull secrets\<close>




subsection \<open>The proxy variable around the hooks\<close>

text \<open>No step of the hooks changes the value that the constructor captured.\<close>

lemma restore_captured:
  "http_proxy_env h = Some v \<Longrightarrow> v \<noteq> [] \<Longrightarrow> restore_http_proxy_env h env ''HTTP_PROXY'' = Some v"
  by (simp add: restore_http_proxy_env_def)

lemma resolve_username_proxy:
  "resolve_username w env h = Inr h' \<Longrightarrow> http_proxy_env h' = http_proxy_env h"
  by (auto simp: resolve_username_def split: if_splits sum.splits)

lemma lookup_workspace_proxy:
  "lookup_workspace w h = Inr h' \<Longrightarrow> http_proxy_env h' = http_proxy_env h"
  by (auto simp: lookup_workspace_def set_stageout_def
      split: if_splits sum.splits pyval.splits option.splits)

lemma set_collection_id_proxy:
  "http_proxy_env (snd (set_collection_id h)) = http_proxy_env h"
  by (auto simp: set_collection_id_def Let_def split: option.splits pyval.splits)

lemma pre_hook_proxy:
  "http_proxy_env (snd (snd (pre_execution_hook w env h))) = http_proxy_env h"
proof (cases "resolve_username w (unset_http_proxy_env env) h")
  case (Inl e)
  then show ?thesis by (simp add: pre_execution_hook_def Let_def)
next
  case (Inr h1)
  note r1 = this
  show ?thesis
  proof (cases "lookup_workspace w h1")
    case (Inl e)
    then show ?thesis using r1 resolve_username_proxy [OF r1]
      by (simp add: pre_execution_hook_def Let_def)
  next
    case (Inr h2)
    then show ?thesis
      using r1 resolve_username_proxy [OF r1] lookup_workspace_proxy [OF Inr]
      by (simp add: pre_execution_hook_def Let_def set_collection_id_proxy)
  qed
qed

lemma setOutput_proxy:
  "http_proxy_env (fst (snd (setOutput w env h n vals))) = http_proxy_env h"
  by (auto simp: setOutput_def Let_def set_output_collection_def
      split: option.splits sum.splits loop_result.splits items_var.splits if_splits)

lemma map_outputs_proxy:
  "http_proxy_env (fst (snd (map_outputs w env names h vals))) = http_proxy_env h"
proof (induction names arbitrary: h vals)
  case Nil
  then show ?case by simp
next
  case (Cons i names)
  show ?case
  proof (cases "map_of (outputs h) i")
    case None
    then show ?thesis by simp
  next
    case (Some d)
    show ?thesis
    proof (cases "d ''mimeType'' = None")
      case True
      then show ?thesis using Some Cons.IH by (auto split: option.splits)
    next
      case False
      obtain e h1 v1 where s: "setOutput w env h i vals = (e, h1, v1)"
        by (cases "setOutput w env h i vals") auto
      have "http_proxy_env h1 = http_proxy_env h"
        using setOutput_proxy [of w env h i vals] s by simp
      then show ?thesis using Some False s Cons.IH [of h1 v1]
        by (cases e) auto
    qed
  qed
qed

lemma post_hook_proxy:
  "http_proxy_env (fst (snd (snd (post_execution_hook w env h out)))) = http_proxy_env h"
  by (auto simp: post_execution_hook_def Let_def map_outputs_proxy split: option.splits)

text \<open>
  C3, as the code has it. The value is read once, by the constructor, and the hooks' \<open>finally\<close>
  clause writes it back when it is not empty. So when \<open>HTTP_PROXY\<close> held a non-empty value
  \<open>v\<close> at construction, it holds \<open>v\<close> after the pre-execution hook and after a post-execution
  hook that follows it, whatever the environment was when each hook was called and whether
  or not the hook raised.
\<close>

theorem proxy_restored_to_constructor_value:
  assumes "init_handler env0 c outs = Inr h" and "env0 ''HTTP_PROXY'' = Some v" and "v \<noteq> []"
  shows "fst (snd (pre_execution_hook w env h)) ''HTTP_PROXY'' = Some v
       \<and> fst (snd (post_execution_hook w' env'
                      (snd (snd (pre_execution_hook w env h))) out)) ''HTTP_PROXY'' = Some v"
proof -
  have cap: "http_proxy_env h = Some v"
    using assms(1,2) by (auto simp: init_handler_def Let_def split: sum.splits)
  have pre: "fst (snd (pre_execution_hook w env h)) ''HTTP_PROXY'' = Some v"
    using restore_captured [OF _ assms(3)] pre_hook_proxy [of w env h] cap
    by (simp add: pre_execution_hook_def Let_def)
  let ?h1 = "snd (snd (pre_execution_hook w env h))"
  have cap1: "http_proxy_env ?h1 = Some v"
    using pre_hook_proxy [of w env h] cap by simp
  have "fst (snd (post_execution_hook w' env' ?h1 out)) ''HTTP_PROXY'' = Some v"
    using restore_captured [OF _ assms(3)] post_hook_proxy [of w' env' ?h1 out] cap1
    by (simp add: post_execution_hook_def Let_def)
  with pre show ?thesis by simp
qed

lemma init_handler_proxy_demo:
  "init_handler env_proxy conf_job outputs_demo = Inr handler_proxy"
  by (simp add: init_handler_def handler_proxy_def plain_handler_def env_proxy_def conf_job_def
      conf_section_def section_get_def Let_def)

theorem proxy_restored_witness:
  "init_handler env_proxy conf_job outputs_demo = Inr handler_proxy
   \<and> env_proxy ''HTTP_PROXY'' = Some ''http://proxy:3128''
   \<and> fst (snd (pre_execution_hook world_down env_proxy handler_proxy)) ''HTTP_PROXY''
       = Some ''http://proxy:3128''
   \<and> fst (snd (post_execution_hook world_down Map.empty
                  (snd (snd (pre_execution_hook world_down env_proxy handler_proxy)))
                  engine_output)) ''HTTP_PROXY'' = Some ''http://proxy:3128''"
proof -
  have e: "env_proxy ''HTTP_PROXY'' = Some ''http://proxy:3128''"
    by (simp add: env_proxy_def)
  have n: "''http://proxy:3128'' \<noteq> []" by simp
  show ?thesis
    using proxy_restored_to_constructor_value [OF init_handler_proxy_demo e n,
            of world_down env_proxy world_down Map.empty engine_output]
          init_handler_proxy_demo e
    by simp
qed

text \<open>
  C3 as stated fails: with \<open>HTTP_PROXY\<close> set to the empty string, at construction and when
  the hook is called, the variable is absent after the hook.
\<close>

theorem empty_proxy_not_restored:
  "init_handler env_empty_proxy conf_job [] = Inr handler_empty_proxy
   \<and> env_empty_proxy ''HTTP_PROXY'' = Some []
   \<and> fst (snd (pre_execution_hook world_down env_empty_proxy handler_empty_proxy)) ''HTTP_PROXY''
       = None"
proof -
  have i: "init_handler env_empty_proxy conf_job [] = Inr handler_empty_proxy"
    by (simp add: init_handler_def handler_empty_proxy_def plain_handler_def env_empty_proxy_def
        conf_job_def conf_section_def section_get_def Let_def)
  have r: "restore_http_proxy_env h (unset_http_proxy_env env_empty_proxy) ''HTTP_PROXY'' = None"
    if "http_proxy_env h = Some []" for h
    using that by (simp add: restore_http_proxy_env_def unset_http_proxy_env_def)
  have "http_proxy_env (snd (snd (pre_execution_hook world_down env_empty_proxy handler_empty_proxy)))
          = Some []"
    by (simp add: pre_hook_proxy handler_empty_proxy_def plain_handler_def)
  then have "fst (snd (pre_execution_hook world_down env_empty_proxy handler_empty_proxy))
               ''HTTP_PROXY'' = None"
    using r by (simp add: pre_execution_hook_def Let_def)
  with i show ?thesis by (simp add: env_empty_proxy_def)
qed

subsection \<open>The acting user\<close>

text \<open>
  C6, as the code has it. \<open>get_user_name\<close> returns the value of the first claim present, in
  the order \<open>username\<close>, \<open>user_name\<close>, \<open>preferred_username\<close>, and \<open>None\<close> when none is. The
  hook keeps that value as the user name only when it is truthy; with no token, with no
  such claim, or with a claim whose value is falsy (the empty string, \<open>null\<close>), the user name
  is the value of \<open>SERVICES_NAMESPACE\<close>, and \<open>None\<close> when that is unset. None of these cases
  raises.
\<close>

theorem identity_resolution:
  "get_user_name d =
     (case map_of d ''username'' of Some v \<Rightarrow> v
      | None \<Rightarrow> (case map_of d ''user_name'' of Some v \<Rightarrow> v
         | None \<Rightarrow> (case map_of d ''preferred_username'' of Some v \<Rightarrow> v | None \<Rightarrow> PNone)))
   \<and> (truthy (ades_rx_token h) \<and> jwt_decode w (ades_rx_token h) = Inr d \<longrightarrow>
        resolve_username w env h =
          Inr (h\<lparr>username := (if truthy (get_user_name d) then get_user_name d
                               else (case env ''SERVICES_NAMESPACE'' of
                                       None \<Rightarrow> PNone | Some v \<Rightarrow> PStr v))\<rparr>))
   \<and> (\<not> truthy (ades_rx_token h) \<and> username h = PNone \<longrightarrow>
        resolve_username w env h =
          Inr (h\<lparr>username := (case env ''SERVICES_NAMESPACE'' of
                                 None \<Rightarrow> PNone | Some v \<Rightarrow> PStr v)\<rparr>))"
  by (auto simp: get_user_name_def resolve_username_def split: option.splits)

theorem identity_resolution_witness:
  "truthy (ades_rx_token handler_token)
   \<and> jwt_decode world_alice (ades_rx_token handler_token)
        = Inr [(''preferred_username'', PStr ''bob''), (''user_name'', PStr ''alice'')]
   \<and> resolve_username world_alice env_namespace handler_token
        = Inr (handler_token\<lparr>username := PStr ''alice''\<rparr>)
   \<and> \<not> truthy (ades_rx_token handler_job) \<and> username handler_job = PNone
   \<and> resolve_username world_down Map.empty handler_job = Inr (handler_job\<lparr>username := PNone\<rparr>)"
proof -
  have t: "truthy (ades_rx_token handler_token)"
    by (simp add: handler_token_def plain_handler_def)
  have j: "jwt_decode world_alice (ades_rx_token handler_token)
        = Inr [(''preferred_username'', PStr ''bob''), (''user_name'', PStr ''alice'')]"
    by (simp add: world_alice_def world_down_def)
  have n: "\<not> truthy (ades_rx_token handler_job) \<and> username handler_job = PNone"
    by (simp add: handler_job_def plain_handler_def)
  show ?thesis
    using identity_resolution
            [of "[(''preferred_username'', PStr ''bob''), (''user_name'', PStr ''alice'')]"
                handler_token world_alice env_namespace]
          identity_resolution [of "[]" handler_job world_down Map.empty] t j n
    by (simp add: get_user_name_def)
qed

text \<open>
  C6 as stated fails: the token carries the claim \<open>username\<close> with the empty string as its
  value, the hook does not raise, and the user name it resolves is the namespace \<open>ns\<close>, not
  the value of the claim.
\<close>

theorem empty_claim_falls_back_to_namespace:
  "jwt_decode world_empty_claim (ades_rx_token handler_token) = Inr [(''username'', PStr [])]
   \<and> get_user_name [(''username'', PStr [])] = PStr []
   \<and> fst (pre_execution_hook world_empty_claim env_namespace handler_token) = None
   \<and> username (snd (snd (pre_execution_hook world_empty_claim env_namespace handler_token)))
       = PStr ''ns''"
  by (simp add: world_empty_claim_def world_down_def handler_token_def plain_handler_def
      get_user_name_def pre_execution_hook_def resolve_username_def lookup_workspace_def
      set_collection_id_def unset_http_proxy_env_def env_namespace_def Let_def
      init_config_defaults_def conf_section_def section_get_def conf_token_def)

subsection \<open>The workspace lookup\<close>

lemma resolve_username_frame:
  "resolve_username w env h = Inr h1 \<Longrightarrow> conf h1 = conf h \<and> use_workspace h1 = use_workspace h"
  by (auto simp: resolve_username_def split: if_splits sum.splits)

lemma set_collection_id_frame:
  "use_workspace (snd (set_collection_id h)) = use_workspace h
   \<and> map (conf_section (conf (snd (set_collection_id h))) ''additional_parameters'') stageout_keys
      = map (conf_section (conf h) ''additional_parameters'') stageout_keys"
  by (auto simp: set_collection_id_def Let_def conf_section_def stageout_keys_def
      split: option.splits pyval.splits)

lemma setOutput_conf:
  "conf (fst (snd (setOutput w env h n vals))) = conf h"
  by (auto simp: setOutput_def Let_def set_output_collection_def
      split: option.splits sum.splits loop_result.splits items_var.splits if_splits)

lemma setOutput_use_workspace:
  "use_workspace (fst (snd (setOutput w env h n vals))) = use_workspace h"
  by (auto simp: setOutput_def Let_def set_output_collection_def
      split: option.splits sum.splits loop_result.splits items_var.splits if_splits)

lemma map_outputs_conf_flag:
  "conf (fst (snd (map_outputs w env names h vals))) = conf h
   \<and> use_workspace (fst (snd (map_outputs w env names h vals))) = use_workspace h"
proof (induction names arbitrary: h vals)
  case Nil
  then show ?case by simp
next
  case (Cons i names)
  show ?case
  proof (cases "map_of (outputs h) i")
    case None
    then show ?thesis by simp
  next
    case (Some d)
    show ?thesis
    proof (cases "d ''mimeType'' = None")
      case True
      then show ?thesis using Some Cons.IH by (auto split: option.splits)
    next
      case False
      obtain e h1 v1 where s: "setOutput w env h i vals = (e, h1, v1)"
        by (cases "setOutput w env h i vals") auto
      have "conf h1 = conf h" "use_workspace h1 = use_workspace h"
        using setOutput_conf [of w env h i vals] setOutput_use_workspace [of w env h i vals] s
        by simp_all
      then show ?thesis using Some False s Cons.IH [of h1 v1]
        by (cases e) auto
    qed
  qed
qed

lemma post_hook_conf_flag:
  "conf (fst (snd (snd (post_execution_hook w env h out)))) = conf h
   \<and> use_workspace (fst (snd (snd (post_execution_hook w env h out)))) = use_workspace h"
  by (auto simp: post_execution_hook_def Let_def map_outputs_conf_flag split: option.splits)

text \<open>
  C1, as the code has it. The workspace is in use, the user name is resolved (to \<open>h1\<close>) and
  the request has a URL. When the GET is answered by a response that is not \<open>ok\<close>, the
  lookup raises nothing and only switches \<open>use_workspace\<close> off; after the pre-execution
  hook, and still after a post-execution hook that follows it, \<open>use_workspace\<close> is off and
  the five \<open>STAGEOUT_*\<close> entries are the ones from before the hooks. When \<open>requests.get\<close>
  raises, or the response is \<open>ok\<close> and its body is not JSON or has no
  \<open>storage.credentials\<close>, the hook raises that exception.
\<close>

theorem bad_workspace_response_keeps_defaults:
  assumes "use_workspace h"
    and "resolve_username w (unset_http_proxy_env env) h = Inr h1"
    and "workspace_api_endpoint w h1 = Inr u"
  shows "(requests_get w u (request_headers w h1 ''accept'') = Inr r \<and> \<not> resp_ok r \<longrightarrow>
            lookup_workspace w h1 = Inr (h1\<lparr>use_workspace := False\<rparr>)
          \<and> \<not> use_workspace (snd (snd (pre_execution_hook w env h)))
          \<and> map (conf_section (conf (snd (snd (pre_execution_hook w env h)))) ''additional_parameters'')
                 stageout_keys
              = map (conf_section (conf h) ''additional_parameters'') stageout_keys
          \<and> \<not> use_workspace (fst (snd (snd (post_execution_hook w' env'
                                  (snd (snd (pre_execution_hook w env h))) out))))
          \<and> map (conf_section (conf (fst (snd (snd (post_execution_hook w' env'
                                  (snd (snd (pre_execution_hook w env h))) out)))))
                   ''additional_parameters'') stageout_keys
              = map (conf_section (conf h) ''additional_parameters'') stageout_keys)
       \<and> (requests_get w u (request_headers w h1 ''accept'') = Inl e \<longrightarrow>
            fst (pre_execution_hook w env h) = Some e)
       \<and> (requests_get w u (request_headers w h1 ''accept'') = Inr r \<and> resp_ok r
            \<and> resp_json r = Inl e \<longrightarrow> fst (pre_execution_hook w env h) = Some e)
       \<and> (requests_get w u (request_headers w h1 ''accept'') = Inr r \<and> resp_ok r
            \<and> resp_json r = Inr body
            \<and> (py_getitem body ''storage'' = Inl e
                \<or> (\<exists>storage. py_getitem body ''storage'' = Inr storage
                       \<and> py_getitem storage ''credentials'' = Inl e))
            \<longrightarrow> fst (pre_execution_hook w env h) = Some e)"
proof (intro conjI impI)
  have f: "conf h1 = conf h" and u1: "use_workspace h1"
    using resolve_username_frame [OF assms(2)] assms(1) by simp_all
  {
    assume a: "requests_get w u (request_headers w h1 ''accept'') = Inr r \<and> \<not> resp_ok r"
    show l: "lookup_workspace w h1 = Inr (h1\<lparr>use_workspace := False\<rparr>)"
      using u1 assms(3) a by (simp add: lookup_workspace_def)
    have p: "snd (snd (pre_execution_hook w env h))
               = snd (set_collection_id (h1\<lparr>use_workspace := False\<rparr>))"
      using assms(2) l by (simp add: pre_execution_hook_def Let_def)
    show n1: "\<not> use_workspace (snd (snd (pre_execution_hook w env h)))"
      using p set_collection_id_frame [of "h1\<lparr>use_workspace := False\<rparr>"] by simp
    show s1: "map (conf_section (conf (snd (snd (pre_execution_hook w env h)))) ''additional_parameters'')
                 stageout_keys
              = map (conf_section (conf h) ''additional_parameters'') stageout_keys"
      using p f set_collection_id_frame [of "h1\<lparr>use_workspace := False\<rparr>"] by simp
    show "\<not> use_workspace (fst (snd (snd (post_execution_hook w' env'
                                  (snd (snd (pre_execution_hook w env h))) out))))"
      using n1 post_hook_conf_flag [of w' env' "snd (snd (pre_execution_hook w env h))" out]
      by simp
    show "map (conf_section (conf (fst (snd (snd (post_execution_hook w' env'
                                  (snd (snd (pre_execution_hook w env h))) out)))))
                   ''additional_parameters'') stageout_keys
              = map (conf_section (conf h) ''additional_parameters'') stageout_keys"
      using s1 post_hook_conf_flag [of w' env' "snd (snd (pre_execution_hook w env h))" out]
      by simp
  }
  {
    assume "requests_get w u (request_headers w h1 ''accept'') = Inl e"
    then show "fst (pre_execution_hook w env h) = Some e"
      using assms(2,3) u1 by (simp add: pre_execution_hook_def Let_def lookup_workspace_def)
  }
  {
    assume "requests_get w u (request_headers w h1 ''accept'') = Inr r \<and> resp_ok r
            \<and> resp_json r = Inl e"
    then show "fst (pre_execution_hook w env h) = Some e"
      using assms(2,3) u1 by (simp add: pre_execution_hook_def Let_def lookup_workspace_def)
  }
  {
    assume "requests_get w u (request_headers w h1 ''accept'') = Inr r \<and> resp_ok r
            \<and> resp_json r = Inr body
            \<and> (py_getitem body ''storage'' = Inl e
                \<or> (\<exists>storage. py_getitem body ''storage'' = Inr storage
                       \<and> py_getitem storage ''credentials'' = Inl e))"
    then show "fst (pre_execution_hook w env h) = Some e"
      using assms(2,3) u1 by (auto simp: pre_execution_hook_def Let_def lookup_workspace_def)
  }
qed

theorem bad_workspace_response_witness:
  "use_workspace handler_workspace
   \<and> requests_get world_forbidden ''http://ws/workspaces/ws-None'' [(''accept'', ''application/json'')]
        = Inr forbidden
   \<and> \<not> resp_ok forbidden
   \<and> lookup_workspace world_forbidden handler_workspace
        = Inr (handler_workspace\<lparr>use_workspace := False\<rparr>)
   \<and> \<not> use_workspace (snd (snd (pre_execution_hook world_forbidden Map.empty handler_workspace)))
   \<and> \<not> use_workspace (fst (snd (snd (post_execution_hook world_forbidden Map.empty
               (snd (snd (pre_execution_hook world_forbidden Map.empty handler_workspace)))
               engine_output))))
   \<and> map (conf_section (conf (fst (snd (snd (post_execution_hook world_forbidden Map.empty
               (snd (snd (pre_execution_hook world_forbidden Map.empty handler_workspace)))
               engine_output))))) ''additional_parameters'') stageout_keys
      = map (conf_section (conf handler_workspace) ''additional_parameters'') stageout_keys
   \<and> fst (pre_execution_hook world_down Map.empty handler_workspace)
       = Some (OtherError ''ConnectionError'')
   \<and> resp_ok not_modified
   \<and> fst (pre_execution_hook world_not_modified Map.empty handler_workspace)
       = Some (OtherError ''JSONDecodeError'')"
proof -
  have a: "use_workspace handler_workspace"
    by (simp add: handler_workspace_def plain_handler_def)
  have b: "resolve_username w (unset_http_proxy_env Map.empty) handler_workspace
             = Inr handler_workspace" for w
    by (simp add: resolve_username_def handler_workspace_def plain_handler_def
        unset_http_proxy_env_def)
  have c: "workspace_api_endpoint w handler_workspace = Inr ''http://ws/workspaces/ws-None''" for w
    by (simp add: workspace_api_endpoint_def handler_workspace_def plain_handler_def)
  have h: "request_headers w handler_workspace ''accept'' = [(''accept'', ''application/json'')]" for w
    by (simp add: request_headers_def handler_workspace_def plain_handler_def)
  have d: "requests_get world_forbidden ''http://ws/workspaces/ws-None''
             (request_headers world_forbidden handler_workspace ''accept'') = Inr forbidden"
    by (simp add: world_forbidden_def world_down_def)
  have e: "\<not> resp_ok forbidden"
    by (simp add: forbidden_def)
  have d2: "requests_get world_down ''http://ws/workspaces/ws-None''
             (request_headers world_down handler_workspace ''accept'')
              = Inl (OtherError ''ConnectionError'')"
    by (simp add: world_down_def)
  have d3: "requests_get world_not_modified ''http://ws/workspaces/ws-None''
             (request_headers world_not_modified handler_workspace ''accept'') = Inr not_modified"
    by (simp add: world_not_modified_def world_down_def)
  have e3: "resp_ok not_modified \<and> resp_json not_modified = Inl (OtherError ''JSONDecodeError'')"
    by (simp add: not_modified_def)
  show ?thesis
    using bad_workspace_response_keeps_defaults [OF a b c, where w = world_forbidden and r = forbidden and w' = world_forbidden
                and env' = Map.empty and out = engine_output]
          bad_workspace_response_keeps_defaults [OF a b c, where w = world_down and e = "OtherError ''ConnectionError''"]
          bad_workspace_response_keeps_defaults [OF a b c, where w = world_not_modified and r = not_modified
                and e = "OtherError ''JSONDecodeError''"]
          a d e h d2 d3 e3
    by simp
qed

text \<open>
  C1 as stated fails. With the workspace API unreachable \<open>requests.get\<close> raises and the
  hook re-raises. A response with status 304 and a body that is not JSON is \<open>ok\<close> for
  \<open>requests\<close>, and the hook raises on its body. And after a 403 answer, with catalogue
  registration asked for, \<open>use_workspace\<close> is off but the post-execution hook still
  POSTs to the workspace API, and raises when that cannot connect.
\<close>

theorem network_failure_raises:
  "init_handler Map.empty conf_workspace [] = Inr handler_workspace
   \<and> use_workspace handler_workspace
   \<and> lookup_workspace world_down handler_workspace = Inl (OtherError ''ConnectionError'')
   \<and> fst (pre_execution_hook world_down Map.empty handler_workspace)
       = Some (OtherError ''ConnectionError'')
   \<and> resp_ok not_modified \<and> resp_status_code not_modified = 304
   \<and> fst (pre_execution_hook world_not_modified Map.empty handler_workspace)
       = Some (OtherError ''JSONDecodeError'')
   \<and> init_handler Map.empty conf_register outputs_demo = Inr handler_register
   \<and> fst (pre_execution_hook world_forbidden_catalog Map.empty handler_register) = None
   \<and> \<not> use_workspace (snd (snd (pre_execution_hook world_forbidden_catalog Map.empty handler_register)))
   \<and> fst (post_execution_hook world_forbidden_catalog Map.empty
             (snd (snd (pre_execution_hook world_forbidden_catalog Map.empty handler_register)))
             engine_output) = Some (OtherError ''ConnectionError'')"
proof -
  have a: "init_handler Map.empty conf_workspace [] = Inr handler_workspace"
    by (simp add: init_handler_def handler_workspace_def plain_handler_def conf_workspace_def
      conf_section_def section_get_def Let_def py_lower_def lower_char_def)
  have b: "init_handler Map.empty conf_register outputs_demo = Inr handler_register"
    by (simp add: init_handler_def handler_register_def plain_handler_def conf_register_def
      conf_section_def section_get_def Let_def py_lower_def lower_char_def)
  have c: "use_workspace handler_workspace
   \<and> lookup_workspace world_down handler_workspace = Inl (OtherError ''ConnectionError'')
   \<and> fst (pre_execution_hook world_down Map.empty handler_workspace)
       = Some (OtherError ''ConnectionError'')"
    by (simp add: handler_workspace_def plain_handler_def world_down_def pre_execution_hook_def
      resolve_username_def lookup_workspace_def workspace_api_endpoint_def
      unset_http_proxy_env_def Let_def)
  have c2: "resp_ok not_modified \<and> resp_status_code not_modified = 304
   \<and> fst (pre_execution_hook world_not_modified Map.empty handler_workspace)
       = Some (OtherError ''JSONDecodeError'')"
    by code_simp
  have d: "fst (pre_execution_hook world_forbidden_catalog Map.empty handler_register) = None
   \<and> \<not> use_workspace (snd (snd (pre_execution_hook world_forbidden_catalog Map.empty handler_register)))
   \<and> fst (post_execution_hook world_forbidden_catalog Map.empty
             (snd (snd (pre_execution_hook world_forbidden_catalog Map.empty handler_register)))
             engine_output) = Some (OtherError ''ConnectionError'')"
    by code_simp
  show ?thesis using a b c c2 d by simp
qed

subsection \<open>Service logs\<close>

lemma user_tmp_url_error:
  "user_tmp_url c = Inl e \<Longrightarrow> e = TypeError \<or> e = AttributeError \<or> (\<exists>k. e = KeyError k)"
  by (auto simp: user_tmp_url_def split: option.splits pyval.splits)

lemma services_logs_total:
  assumes "\<And>t. \<exists>x. tool_log_entry w c t = Inr x"
  shows "\<exists>xs. services_logs w c ts = Inr xs \<and> length xs = length ts"
proof (induction ts)
  case Nil
  then show ?case by simp
next
  case (Cons t ts)
  obtain x where "tool_log_entry w c t = Inr x" using assms by blast
  with Cons show ?case by auto
qed

lemma store_logs_keeps_section:
  "c ''service_logs'' \<noteq> None \<Longrightarrow> store_logs n xs c ''service_logs'' \<noteq> None"
  by (induction xs arbitrary: n c) (simp_all add: Let_def)

lemma store_logs_creates_section:
  "xs \<noteq> [] \<Longrightarrow> store_logs n xs c ''service_logs'' \<noteq> None"
  by (cases xs) (simp_all add: Let_def store_logs_keeps_section)

text \<open>
  C10, as the code has it, for a configuration without \<open>service_logs\<close>. With no tool log
  the call raises a \<open>KeyError\<close>, provided that \<open>main.tmpUrl\<close> and \<open>auth_env.user\<close>, where
  present, are strings (the first statement then fails with a \<open>KeyError\<close> or not at all).
  With at least one tool log the call completes and stores as \<open>length\<close> the number of
  entries built, provided that \<open>main.tmpUrl\<close> and \<open>auth_env.user\<close> are present strings and
  \<open>lenv\<close> has \<open>Identifier\<close> and \<open>usid\<close>.
\<close>

theorem handle_outputs_without_service_logs:
  assumes "conf h ''service_logs'' = None"
  shows "(user_tmp_url (conf h) \<noteq> Inl TypeError \<and> user_tmp_url (conf h) \<noteq> Inl AttributeError
            \<longrightarrow> (\<exists>k. fst (handle_outputs w h []) = Some (KeyError k)))
       \<and> (user_tmp_url (conf h) = Inr u \<and> conf h ''lenv'' = Some l \<and> l ''Identifier'' = Some ident
            \<and> l ''usid'' = Some usid \<and> tool_logs \<noteq> []
            \<longrightarrow> fst (handle_outputs w h tool_logs) = None
                \<and> conf_section (conf (snd (handle_outputs w h tool_logs))) ''service_logs'' ''length''
                    = Some (PStr (str_nat (length tool_logs))))"
proof (intro conjI impI)
  assume t: "user_tmp_url (conf h) \<noteq> Inl TypeError \<and> user_tmp_url (conf h) \<noteq> Inl AttributeError"
  show "\<exists>k. fst (handle_outputs w h []) = Some (KeyError k)"
  proof (cases "user_tmp_url (conf h)")
    case (Inl e)
    then obtain k where "e = KeyError k" using user_tmp_url_error [OF Inl] t by auto
    with Inl show ?thesis by (simp add: handle_outputs_def)
  next
    case (Inr u')
    then show ?thesis using assms by (simp add: handle_outputs_def Let_def)
  qed
next
  assume a: "user_tmp_url (conf h) = Inr u \<and> conf h ''lenv'' = Some l \<and> l ''Identifier'' = Some ident
            \<and> l ''usid'' = Some usid \<and> tool_logs \<noteq> []"
  let ?c1 = "(conf h)(''main'' \<mapsto> (conf_section (conf h) ''main'')(''tmpUrl'' \<mapsto> PStr u))"
  have "\<And>t. \<exists>x. tool_log_entry w ?c1 t = Inr x"
    using a by (simp add: tool_log_entry_def)
  then obtain xs where xs: "services_logs w ?c1 tool_logs = Inr xs" "length xs = length tool_logs"
    using services_logs_total [of w ?c1 tool_logs] by blast
  have ne: "xs \<noteq> []" using xs(2) a by auto
  have c1n: "?c1 ''service_logs'' = None" using assms by simp
  obtain sl where sl: "store_logs 0 xs ?c1 ''service_logs'' = Some sl"
    using store_logs_creates_section [OF ne, of 0 ?c1] by auto
  have r: "handle_outputs w h tool_logs =
        (None, h\<lparr>conf := (store_logs 0 xs ?c1)(''service_logs'' \<mapsto>
                     sl(''length'' \<mapsto> PStr (str_nat (length xs))))\<rparr>)"
    using a xs(1) c1n sl by (simp add: handle_outputs_def Let_def)
  show "fst (handle_outputs w h tool_logs) = None"
    using r by simp
  show "conf_section (conf (snd (handle_outputs w h tool_logs))) ''service_logs'' ''length''
                    = Some (PStr (str_nat (length tool_logs)))"
    using r xs(2) by (simp add: conf_section_def)
qed

lemma handler_job_tmp_url: "user_tmp_url (conf handler_job) = Inr ''http://host/bob/temp/''"
  by (simp add: user_tmp_url_def handler_job_def plain_handler_def init_config_defaults_def
      conf_job_def Let_def replace_str.simps)

lemma handler_job_lenv:
  "conf handler_job ''service_logs'' = None
   \<and> conf handler_job ''lenv'' = Some [''Identifier'' \<mapsto> PStr ''proc'', ''usid'' \<mapsto> PStr ''u1'']"
  by (simp add: handler_job_def plain_handler_def init_config_defaults_def conf_job_def Let_def)

theorem handle_outputs_without_service_logs_witness:
  "conf handler_job ''service_logs'' = None
   \<and> user_tmp_url (conf handler_job) = Inr ''http://host/bob/temp/''
   \<and> (\<exists>k. fst (handle_outputs world_down handler_job []) = Some (KeyError k))
   \<and> fst (handle_outputs world_down handler_job [''/work/step.log'']) = None
   \<and> conf_section (conf (snd (handle_outputs world_down handler_job [''/work/step.log''])))
        ''service_logs'' ''length'' = Some (PStr ''1'')"
proof -
  have n: "str_nat (length [''/work/step.log'']) = ''1''"
    by code_simp
  show ?thesis
    using handle_outputs_without_service_logs
            [where h = handler_job and u = "''http://host/bob/temp/''"
               and l = "[''Identifier'' \<mapsto> PStr ''proc'', ''usid'' \<mapsto> PStr ''u1'']"
               and ident = "PStr ''proc''" and usid = "PStr ''u1''"
               and tool_logs = "[''/work/step.log'']" and w = world_down]
          handler_job_tmp_url handler_job_lenv n
    by simp
qed

text \<open>
  C10 as stated fails: the configuration has no \<open>service_logs\<close> and no \<open>auth_env\<close>, there
  is one tool log, and the call raises \<open>KeyError\<close> instead of completing.
\<close>

theorem handle_outputs_needs_auth_env:
  "conf handler_no_auth ''service_logs'' = None
   \<and> fst (handle_outputs world_down handler_no_auth [''/work/step.log''])
       = Some (KeyError ''auth_env'')"
  by (simp add: handle_outputs_def user_tmp_url_def handler_no_auth_def plain_handler_def
      init_config_defaults_def conf_no_auth_def Let_def)

text \<open>
  C2 on the code. A job fails with one tool log and a configuration that has no
  \<open>service_logs\<close>: the failure branch stores the job-log entry under the unsuffixed keys,
  \<open>handle_outputs\<close> then stores the tool log under the keys with suffix \<open>_1\<close>, and \<open>length\<close>
  is \<open>"1"\<close> while two entries exist. And on a configuration that already holds two entries
  (\<open>length\<close> is \<open>"2"\<close>) the job-log entry is stored under the suffix \<open>_2\<close> and \<open>length\<close> is set
  to \<open>"1"\<close>.
\<close>

theorem failure_branch_length_undercounts:
  "conf_section (conf (failure_branch world_down writable handler_job (Some runner_one_log)))
      ''service_logs'' ''url'' = Some (PStr ''http://host/bob/temp/ns/job.log'')
   \<and> conf_section (conf (failure_branch world_down writable handler_job (Some runner_one_log)))
      ''service_logs'' ''url_1'' = Some (PStr ''http://host/bob/temp/proc-u1/step.log'')
   \<and> conf_section (conf (failure_branch world_down writable handler_job (Some runner_one_log)))
      ''service_logs'' ''length'' = Some (PStr ''1'')
   \<and> fst (append_job_log conf_two_logs ''ns'') = None
   \<and> conf_section (snd (append_job_log conf_two_logs ''ns'')) ''service_logs'' ''url_2''
       = Some (PStr ''http://host/bob/temp/ns/job.log'')
   \<and> conf_section (snd (append_job_log conf_two_logs ''ns'')) ''service_logs'' ''length''
       = Some (PStr ''1'')"
  by code_simp

subsection \<open>The output catalog\<close>

lemma output_loop_sentinel:
  assumes "list_all is_reference pre"
    and "pre \<noteq> [] \<longrightarrow> (\<exists>ap cid. c ''additional_parameters'' = Some ap \<and> ap ''collection_id'' = Some cid)"
    and "py_getitem ref ''value'' = Inr p"
    and "load_catalog w env p = Inl e"
  shows "output_loop w env c (pre @ ref # rest) l = Sentinel"
  using assms
proof (induction pre arbitrary: l)
  case Nil
  have "ref \<noteq> PNone" using Nil(3) by auto
  then show ?case using Nil by simp
next
  case (Cons r pre)
  from Cons.prems(1) obtain q where q: "py_getitem r ''value'' = Inr q"
    by (auto simp: is_reference_def split: sum.splits)
  then have rn: "r \<noteq> PNone" by auto
  from Cons.prems(2) obtain ap cid where ap: "c ''additional_parameters'' = Some ap" "ap ''collection_id'' = Some cid"
    by auto
  have ih: "\<And>l. output_loop w env c (pre @ ref # rest) l = Sentinel"
    using Cons.IH Cons.prems ap by auto
  show ?case
    using rn q ap ih by (cases "load_catalog w env q") (simp_all add: Let_def)
qed

text \<open>
  C8. An element of \<open>values[outputName]\<close> holds a path whose document cannot be read. The
  elements before it, if any, are references (the loop neither breaks nor raises on them)
  and \<open>collection_id\<close> is then in the configuration. Then \<open>setOutput\<close> returns without
  raising and the output's \<open>collection\<close> is the string \<open>{}\<close>.
\<close>

theorem unreadable_document_gives_sentinel:
  assumes "map_of (outputs h) name = Some output"
    and "vals name = Some v"
    and "(case v of PList xs \<Rightarrow> xs | _ \<Rightarrow> [v]) = pre @ ref # rest"
    and "list_all is_reference pre"
    and "pre \<noteq> [] \<longrightarrow> (\<exists>ap cid. conf h ''additional_parameters'' = Some ap \<and> ap ''collection_id'' = Some cid)"
    and "py_getitem ref ''value'' = Inr p"
    and "load_catalog w env p = Inl e"
  shows "fst (setOutput w env h name vals) = None
       \<and> map_of (outputs (fst (snd (setOutput w env h name vals)))) name
           = Some (output(''collection'' \<mapsto> PStr ''{}''))"
proof -
  have "\<And>l. output_loop w env (conf h) (pre @ ref # rest) l = Sentinel"
    using output_loop_sentinel [where c = "conf h" and pre = pre and ref = ref and p = p
                                  and w = w and env = env and e = e and rest = rest]
          assms(4,5,6,7) by blast
  then show ?thesis
    using assms(1,2,3)
    by (simp add: setOutput_def Let_def set_output_collection_def AList.update_conv')
qed



theorem unreadable_document_witness:
  "fst (setOutput world_down Map.empty handler_job ''stac'' engine_output) = None
   \<and> map_of (outputs (fst (snd (setOutput world_down Map.empty handler_job ''stac'' engine_output))))
         ''stac'' = Some ([''mimeType'' \<mapsto> PStr ''application/json'', ''collection'' \<mapsto> PStr ''{}''])
   \<and> fst (setOutput world_catalog Map.empty handler_ready ''stac'' engine_output_two) = None
   \<and> map_of (outputs (fst (snd (setOutput world_catalog Map.empty handler_ready ''stac''
                                     engine_output_two))))
         ''stac'' = Some ([''mimeType'' \<mapsto> PStr ''application/json'', ''collection'' \<mapsto> PStr ''{}''])"
proof -
  have o1: "map_of (outputs handler_job) ''stac'' = Some [''mimeType'' \<mapsto> PStr ''application/json'']"
    by (simp add: handler_job_def plain_handler_def outputs_demo_def)
  have o2: "map_of (outputs handler_ready) ''stac'' = Some [''mimeType'' \<mapsto> PStr ''application/json'']"
    by (simp add: handler_ready_def set_collection_id_def handler_job_def plain_handler_def
        outputs_demo_def init_config_defaults_def conf_job_def conf_section_def section_get_def Let_def)
  have cid: "[PDict [(''value'', PStr ''bucket/run/catalog.json'')]] \<noteq> [] \<longrightarrow>
       (\<exists>ap cid. conf handler_ready ''additional_parameters'' = Some ap \<and> ap ''collection_id'' = Some cid)"
    by (simp add: handler_ready_def set_collection_id_def handler_job_def plain_handler_def
        init_config_defaults_def conf_job_def conf_section_def section_get_def Let_def)
  have a: "fst (setOutput world_down Map.empty handler_job ''stac'' engine_output) = None
     \<and> map_of (outputs (fst (snd (setOutput world_down Map.empty handler_job ''stac'' engine_output))))
         ''stac'' = Some ([''mimeType'' \<mapsto> PStr ''application/json''](''collection'' \<mapsto> PStr ''{}''))"
    by (rule unreadable_document_gives_sentinel
          [where pre = "[]" and rest = "[]" and p = "PStr ''bucket/run/catalog.json''"
             and v = "PDict [(''value'', PStr ''bucket/run/catalog.json'')]"
             and ref = "PDict [(''value'', PStr ''bucket/run/catalog.json'')]"
             and e = "OtherError ''NoSuchKey''", OF o1])
       (simp_all add: engine_output_def load_catalog_def world_down_def)
  have b: "fst (setOutput world_catalog Map.empty handler_ready ''stac'' engine_output_two) = None
     \<and> map_of (outputs (fst (snd (setOutput world_catalog Map.empty handler_ready ''stac''
                                     engine_output_two))))
         ''stac'' = Some ([''mimeType'' \<mapsto> PStr ''application/json''](''collection'' \<mapsto> PStr ''{}''))"
    by (rule unreadable_document_gives_sentinel
          [where pre = "[PDict [(''value'', PStr ''bucket/run/catalog.json'')]]" and rest = "[]"
             and p = "PStr ''s3://bucket/run/missing.json''"
             and v = "PList [PDict [(''value'', PStr ''bucket/run/catalog.json'')],
                             PDict [(''value'', PStr ''s3://bucket/run/missing.json'')]]"
             and ref = "PDict [(''value'', PStr ''s3://bucket/run/missing.json'')]"
             and e = "OtherError ''NoSuchKey''", OF o2 _ _ _ cid])
       (simp_all add: engine_output_two_def load_catalog_def world_catalog_def world_down_def
          is_reference_def)
  show ?thesis using a b by simp
qed

lemma output_loop_natives:
  assumes "list_all (has_native w env) pre"
    and "c ''additional_parameters'' = Some ap"
    and "ap ''collection_id'' = Some cid"
    and "py_getitem ref ''value'' = Inr p"
    and "load_catalog w env p = Inr cat"
    and "get_all_collections cat = Inr (x # xs)"
  shows "\<exists>l'. output_loop w env c (pre @ [ref]) l = Completed l'
              \<and> l_items l' = l_items l
              \<and> l_collection l' = Some (Some (Native x))
              \<and> l_collection_id l' = Some cid"
  using assms(1)
proof (induction pre arbitrary: l)
  case Nil
  have "ref \<noteq> PNone" using assms(4) by auto
  then show ?case using assms(2-6) by (simp add: Let_def)
next
  case (Cons r pre)
  from Cons.prems obtain q cat' y ys where
      q: "py_getitem r ''value'' = Inr q" "load_catalog w env q = Inr cat'"
         "get_all_collections cat' = Inr (y # ys)"
    by (auto simp: has_native_def split: sum.splits list.splits)
  have rn: "r \<noteq> PNone" using q(1) by auto
  have rest: "list_all (has_native w env) pre" using Cons.prems by simp
  let ?l1 = "l\<lparr>l_collection := Some None, l_collection_id := Some cid,
               l_collection := Some (Some (Native y))\<rparr>"
  have step: "output_loop w env c ((r # pre) @ [ref]) l = output_loop w env c (pre @ [ref]) ?l1"
    using rn q assms(2,3) by (simp add: Let_def)
  obtain l' where "output_loop w env c (pre @ [ref]) ?l1 = Completed l'"
      "l_items l' = l_items ?l1" "l_collection l' = Some (Some (Native x))"
      "l_collection_id l' = Some cid"
    using Cons.IH [OF rest, of ?l1] by blast
  then show ?case using step by simp
qed

text \<open>
  C4, as the code has it. The engine produced a list of references for the output (or one
  reference), the document of each is read and has a collection, and \<open>collection_id\<close> is in
  the configuration. Then the output's \<open>collection\<close> is the dict of the first collection of
  the last reference, with \<open>id\<close> set to \<open>collection_id\<close> whatever \<open>id\<close> it had (also when
  the catalogue registration that follows raises); without registration \<open>setOutput\<close>
  raises nothing.
\<close>

theorem native_collection_gets_collection_id:
  assumes "map_of (outputs h) name = Some output"
    and "vals name = Some v"
    and "(case v of PList xs \<Rightarrow> xs | _ \<Rightarrow> [v]) = pre @ [ref]"
    and "list_all (has_native w env) pre"
    and "py_getitem ref ''value'' = Inr p"
    and "load_catalog w env p = Inr cat"
    and "get_all_collections cat = Inr (x # xs)"
    and "conf h ''additional_parameters'' = Some ap"
    and "ap ''collection_id'' = Some cid"
  shows "map_of (outputs (fst (snd (setOutput w env h name vals)))) name
           = Some (output(''collection'' \<mapsto> PDict (AList.update ''id'' cid (to_dict x))))
       \<and> map_of (AList.update ''id'' cid (to_dict x)) ''id'' = Some cid
       \<and> (\<not> workspace_catalog_register h \<longrightarrow> fst (setOutput w env h name vals) = None)"
proof -
  let ?l0 = "\<lparr>l_items = ItemsList [], l_itemFinal = None,
              l_collection = None, l_collection_id = None\<rparr>"
  obtain l' where l': "output_loop w env (conf h) (pre @ [ref]) ?l0 = Completed l'"
      "l_items l' = l_items ?l0" "l_collection l' = Some (Some (Native x))"
      "l_collection_id l' = Some cid"
    using output_loop_natives [where c = "conf h" and w = w and env = env and pre = pre
            and ap = ap and cid = cid and ref = ref and p = p and cat = cat and x = x
            and xs = xs and l = ?l0] assms(4-9)
    by blast
  have i: "l_items l' = ItemsList []" using l'(2) by simp
  show ?thesis
    using assms(1,2,3) l'(1,3,4) i
    by (simp add: setOutput_def Let_def set_output_collection_def AList.update_conv' coll_to_dict_def)
qed

theorem native_collection_witness:
  "map_of (to_dict stored_collection) ''id'' = Some (PStr ''original'')
   \<and> fst (setOutput world_catalog Map.empty handler_ready ''stac'' engine_output) = None
   \<and> map_of (outputs (fst (snd (setOutput world_catalog Map.empty handler_ready ''stac''
                                     engine_output)))) ''stac''
       = Some ([''mimeType'' \<mapsto> PStr ''application/json'',
                ''collection'' \<mapsto> PDict [(''type'', PStr ''Collection''), (''id'', PStr ''u1'')]])
   \<and> map_of (outputs (fst (snd (setOutput world_three_documents Map.empty handler_ready ''stac''
                                     engine_output_two_natives)))) ''stac''
       = Some ([''mimeType'' \<mapsto> PStr ''application/json'',
                ''collection'' \<mapsto> PDict [(''type'', PStr ''Collection''), (''id'', PStr ''u1''),
                                            (''title'', PStr ''second'')]])"
proof -
  have o: "map_of (outputs handler_ready) ''stac'' = Some [''mimeType'' \<mapsto> PStr ''application/json'']"
    by (simp add: handler_ready_def set_collection_id_def handler_job_def plain_handler_def
        outputs_demo_def init_config_defaults_def conf_job_def conf_section_def section_get_def Let_def)
  have r: "\<not> workspace_catalog_register handler_ready"
    by (simp add: handler_ready_def set_collection_id_def handler_job_def plain_handler_def
        init_config_defaults_def conf_job_def conf_section_def section_get_def Let_def)
  obtain ap where ap: "conf handler_ready ''additional_parameters'' = Some ap"
      "ap ''collection_id'' = Some (PStr ''u1'')"
    by (simp add: handler_ready_def set_collection_id_def handler_job_def plain_handler_def
        init_config_defaults_def conf_job_def conf_section_def section_get_def Let_def)
  have c: "map_of (outputs (fst (snd (setOutput world_catalog Map.empty handler_ready ''stac''
                                     engine_output)))) ''stac''
       = Some ([''mimeType'' \<mapsto> PStr ''application/json''](''collection'' \<mapsto>
                  PDict (AList.update ''id'' (PStr ''u1'') (to_dict stored_collection))))
     \<and> map_of (AList.update ''id'' (PStr ''u1'') (to_dict stored_collection)) ''id'' = Some (PStr ''u1'')
     \<and> (\<not> workspace_catalog_register handler_ready
          \<longrightarrow> fst (setOutput world_catalog Map.empty handler_ready ''stac'' engine_output) = None)"
    by (rule native_collection_gets_collection_id
          [where pre = "[]" and ref = "PDict [(''value'', PStr ''bucket/run/catalog.json'')]"
             and v = "PDict [(''value'', PStr ''bucket/run/catalog.json'')]"
             and p = "PStr ''bucket/run/catalog.json''"
             and cat = "\<lparr> get_all_collections = Inr [stored_collection], get_all_items = Inr (Inr []) \<rparr>"
             and xs = "[]", OF o _ _ _ _ _ _ ap])
       (simp_all add: engine_output_def load_catalog_def world_catalog_def world_down_def)
  have d: "map_of (outputs (fst (snd (setOutput world_three_documents Map.empty handler_ready ''stac''
                                     engine_output_two_natives)))) ''stac''
       = Some ([''mimeType'' \<mapsto> PStr ''application/json''](''collection'' \<mapsto>
                  PDict (AList.update ''id'' (PStr ''u1'') (to_dict other_collection))))
     \<and> map_of (AList.update ''id'' (PStr ''u1'') (to_dict other_collection)) ''id'' = Some (PStr ''u1'')
     \<and> (\<not> workspace_catalog_register handler_ready
          \<longrightarrow> fst (setOutput world_three_documents Map.empty handler_ready ''stac''
                     engine_output_two_natives) = None)"
    by (rule native_collection_gets_collection_id
          [where pre = "[PDict [(''value'', PStr ''s3://bucket/run/catalog.json'')]]"
             and ref = "PDict [(''value'', PStr ''s3://bucket/run/other.json'')]"
             and v = "PList [PDict [(''value'', PStr ''s3://bucket/run/catalog.json'')],
                             PDict [(''value'', PStr ''s3://bucket/run/other.json'')]]"
             and p = "PStr ''s3://bucket/run/other.json''"
             and cat = "\<lparr> get_all_collections = Inr [other_collection], get_all_items = Inr (Inr []) \<rparr>"
             and xs = "[]", OF o _ _ _ _ _ _ ap])
       (simp_all add: engine_output_two_natives_def load_catalog_def world_three_documents_def
          world_down_def has_native_def)
  show ?thesis using c d r by (simp add: stored_collection_def other_collection_def)
qed

text \<open>
  C4 as stated fails. The output has two references whose documents both load. When the
  first has a collection and the second has only an item, the output's \<open>collection\<close> is the
  string \<open>{}\<close>; when both have a collection, only the collection of the second is stored.
\<close>

theorem native_collection_lost_among_references:
  "has_native world_three_documents Map.empty (PDict [(''value'', PStr ''s3://bucket/run/catalog.json'')])
   \<and> fst (setOutput world_three_documents Map.empty handler_ready ''stac''
             engine_output_native_then_items) = None
   \<and> output_field (outputs (fst (snd (setOutput world_three_documents Map.empty handler_ready
             ''stac'' engine_output_native_then_items)))) ''stac'' ''collection''
       = Some (PStr ''{}'')
   \<and> output_field (outputs (fst (snd (setOutput world_three_documents Map.empty handler_ready
             ''stac'' engine_output_two_natives)))) ''stac'' ''collection''
       = Some (PDict [(''type'', PStr ''Collection''), (''id'', PStr ''u1''),
                     (''title'', PStr ''second'')])"
  by code_simp

subsection \<open>Outputs without a mimeType\<close>





end
